theory Spec2Isabelle
  imports Complex_Main "HOL-Library.Multiset"
begin

section \<open>Python outcomes\<close>

text \<open>
  Every function of the repository is modelled as a function into \<open>py_error + 'a\<close>:
  \<open>Inl e\<close> is the exception the Python code raises, \<open>Inr v\<close> the value it returns.
  \<open>CollaboratorError\<close> stands for an exception raised inside an external lookup
  (equipment database, remote service). \<open>OutsideModel\<close> marks an input on which a
  library routine (\<open>float\<close>, \<open>int\<close>, \<open>json.loads\<close>) is not described by this
  development; nothing is stated about Python's behaviour there.
\<close>

datatype py_error =
    UnboundLocalError
  | IndexError
  | KeyError
  | TypeError
  | ValueError
  | ZeroDivisionError
  | JSONDecodeError
  | CollaboratorError
  | OutsideModel

type_synonym 'a result = "py_error + 'a"

definition bind_result :: "'a result \<Rightarrow> ('a \<Rightarrow> 'b result) \<Rightarrow> 'b result" where
  "bind_result m f = (case m of Inl e \<Rightarrow> Inl e | Inr v \<Rightarrow> f v)"

section \<open>The numeric library, idealised\<close>

text \<open>
  Finite floating-point numbers are idealised as reals. The special values of the array
  library's arithmetic are kept, because whether a division by zero raises or yields
  one of them decides how \<open>get_cen\<close> ends; so is what binary arithmetic does to
  \<open>np.round\<close>.
\<close>

datatype npfloat = Finite real | NaN | PosInf | NegInf

text \<open>
  \<open>array / scalar\<close> of the array library, elementwise, for a float element and an
  integer divisor: a zero divisor gives \<open>nan\<close> or an infinity (and a warning),
  never an exception.
\<close>

definition np_true_divide :: "real \<Rightarrow> int \<Rightarrow> npfloat" where
  "np_true_divide x d =
     (if d \<noteq> 0 then Finite (x / of_int d)
      else if x = 0 then NaN
      else if 0 < x then PosInf else NegInf)"

text \<open>\<open>np.rint\<close>: the nearest integer, ties to the even one.\<close>

definition rint :: "real \<Rightarrow> int" where
  "rint x =
     (let f = \<lfloor>x\<rfloor>; r = x - of_int f
      in if r < 1 / 2 then f
         else if 1 / 2 < r then f + 1
         else if even f then f else f + 1)"

text \<open>
  \<open>np.round(x, decimals)\<close> multiplies by the power of ten, applies \<open>rint\<close> and
  divides again (for negative \<open>decimals\<close> it divides first and multiplies afterwards),
  all in binary arithmetic. Two effects of that arithmetic are kept.

  The power of ten is itself a double: from \<open>10 ^ 309\<close> on it is infinite, and the
  result is \<open>nan\<close> whatever \<open>x\<close> is.

  The scaled value is rounded to a double before \<open>rint\<close> sees it. Close to a tie (a
  half-integer) the binary value, not the real one, decides the direction of the
  rounding, and beyond the range of the doubles the value overflows. In both cases the
  result is \<open>Undecided\<close>: binary arithmetic decides it, and nothing is stated about
  it here. \<open>near_tie\<close> is generous: it takes a relative error of \<open>2 ^ - 40\<close> for the
  scaled value, which covers the error of the power of ten and of the product.
  Everywhere else the result is \<open>Decided\<close>, the real number that the returned double
  stands for.
\<close>

datatype rounded = Decided npfloat | Undecided

definition near_tie :: "real \<Rightarrow> bool" where
  "near_tie y \<longleftrightarrow>
     \<bar>y\<bar> < 2 ^ 39 \<and> \<bar>y - of_int \<lfloor>y\<rfloor> - 1 / 2\<bar> * 2 ^ 40 \<le> \<bar>y\<bar>"

definition near_overflow :: "real \<Rightarrow> bool" where
  "near_overflow y \<longleftrightarrow> 2 ^ 1023 \<le> \<bar>y\<bar>"

definition np_round :: "real \<Rightarrow> int \<Rightarrow> rounded" where
  "np_round x decimals =
     (if 309 \<le> \<bar>decimals\<bar> then Decided NaN
      else
        let s = 10 ^ nat \<bar>decimals\<bar>;
            y = (if 0 \<le> decimals then x * s else x / s);
            r = (if 0 \<le> decimals then of_int (rint y) / s else of_int (rint y) * s)
        in if near_tie y \<or> near_overflow y \<or> near_overflow r then Undecided
           else Decided (Finite r))"


definition np_sort :: "real list \<Rightarrow> real list" where
  "np_sort ac = sort ac"

text \<open>\<open>np.max\<close> raises \<open>ValueError\<close> on an empty array.\<close>

definition np_max :: "real list \<Rightarrow> real result" where
  "np_max ac = (if ac = [] then Inl ValueError else Inr (Max (set ac)))"

text \<open>
  The default (\<open>linear\<close>) method of \<open>np.percentile\<close> on the sorted samples \<open>a\<close>:
  the virtual index is \<open>q / 100 * (n - 1)\<close>, the result interpolates between the
  two neighbouring order statistics.
\<close>

definition percentile_linear :: "real list \<Rightarrow> real \<Rightarrow> real" where
  "percentile_linear a q =
     (let n = length a;
          vi = q / 100 * real (n - 1);
          lo = nat \<lfloor>vi\<rfloor>;
          hi = min (lo + 1) (n - 1);
          g = vi - real lo
      in a ! lo + g * (a ! hi - a ! lo))"

text \<open>
  \<open>np.percentile(ac, q)\<close> raises \<open>ValueError\<close> unless \<open>0 \<le> q / 100 \<le> 1\<close>. On an
  empty array the library returns \<open>nan\<close>; \<open>get_cen\<close> never gets there, because
  \<open>np.max\<close> has raised before, and the model reports the same \<open>ValueError\<close>.
\<close>

definition np_percentile :: "real list \<Rightarrow> real \<Rightarrow> real result" where
  "np_percentile ac q =
     (if q < 0 \<or> 100 < q then Inl ValueError
      else if ac = [] then Inl ValueError
      else Inr (percentile_linear (np_sort ac) q))"

section \<open>The capacity statistic: \<open>cno_cen.get_cen\<close>\<close>

definition units_MW :: real where
  "units_MW = 1000000"

text \<open>
  \<open>p = 1. * np.arange(len(ac)) / (len(ac) - 1)\<close>: the proportional values of the
  samples.
\<close>

definition cen_p :: "real list \<Rightarrow> npfloat list" where
  "cen_p ac =
     map (\<lambda>i. np_true_divide (1 * real i) (int (length ac) - 1)) [0..<length ac]"

text \<open>
  What \<open>get_cen\<close> returns is the pair \<open>(cen_per, cen_pmax)\<close>; \<open>curve_xy\<close> records
  the two arrays handed to \<open>plt.plot\<close> when \<open>curve\<close> is true. The line printed
  and the styling of the plot are left out.
\<close>

record cen_result =
  cen_per :: rounded
  cen_pmax :: rounded
  curve_xy :: "(real list \<times> npfloat list) option"

definition get_cen :: "real list \<Rightarrow> real \<Rightarrow> int \<Rightarrow> bool \<Rightarrow> cen_result result" where
  "get_cen ac perc decimals curve =
     (let pac = np_sort ac
      in bind_result (np_max ac) (\<lambda>pac_max.
         let p = cen_p ac
         in bind_result (np_percentile ac perc) (\<lambda>per.
            let cen_per = np_round (per / units_MW) decimals
            in bind_result (np_max ac) (\<lambda>mx.
               let cen_pmax = np_round (mx / units_MW) decimals
               in Inr \<lparr> cen_per = cen_per, cen_pmax = cen_pmax,
                         curve_xy = (if curve then Some (pac, p) else None) \<rparr>))))"

section \<open>Python values and dictionaries\<close>

text \<open>
  The values that occur in equipment records: \<open>None\<close>, strings and numbers. Python's
  \<open>int\<close> and \<open>float\<close> are both idealised as reals. A dictionary is an association
  list in insertion order.
\<close>

datatype pyval = PyNone | PyStr string | PyNum real

type_synonym pydict = "(string \<times> pyval) list"

text \<open>\<open>d[k]\<close> raises \<open>KeyError\<close> on a missing key.\<close>

definition dict_get :: "pydict \<Rightarrow> string \<Rightarrow> pyval result" where
  "dict_get d k = (case map_of d k of None \<Rightarrow> Inl KeyError | Some v \<Rightarrow> Inr v)"

text \<open>\<open>d[k] = v\<close>: replace in place, or append a new key.\<close>

fun dict_set :: "pydict \<Rightarrow> string \<Rightarrow> pyval \<Rightarrow> pydict" where
  "dict_set [] k v = [(k, v)]"
| "dict_set ((k', v') # d) k v =
     (if k' = k then (k, v) # d else (k', v') # dict_set d k v)"

text \<open>
  A dictionary display \<open>{k1: e1, k2: e2, ...}\<close>: the entries are evaluated in order
  and the first exception ends the evaluation.
\<close>

fun dict_literal :: "(string \<times> pyval result) list \<Rightarrow> pydict result" where
  "dict_literal [] = Inr []"
| "dict_literal ((k, e) # es) =
     (case e of
        Inl err \<Rightarrow> Inl err
      | Inr v \<Rightarrow>
          (case dict_literal es of Inl err \<Rightarrow> Inl err | Inr d \<Rightarrow> Inr ((k, v) # d)))"

text \<open>Reading a local variable that no branch has assigned.\<close>

definition bound :: "'a option \<Rightarrow> 'a result" where
  "bound v = (case v of None \<Rightarrow> Inl UnboundLocalError | Some x \<Rightarrow> Inr x)"

text \<open>
  Arithmetic on record values. An operand that is not a number ends every arithmetic
  expression of \<open>check_module\<close> in a \<open>TypeError\<close>; a zero divisor raises
  \<open>ZeroDivisionError\<close> (the records hold Python numbers).
\<close>

definition as_num :: "pyval \<Rightarrow> real result" where
  "as_num v = (case v of PyNum x \<Rightarrow> Inr x | _ \<Rightarrow> Inl TypeError)"

text \<open>
  A rounded number stored in a record. The records hold reals, so a rounding that
  binary arithmetic decides is outside the model.
\<close>

definition py_rounded :: "rounded \<Rightarrow> pyval result" where
  "py_rounded r =
     (case r of Decided (Finite v) \<Rightarrow> Inr (PyNum v) | _ \<Rightarrow> Inl OutsideModel)"

text \<open>\<open>np.round(a * 100 / b, 6)\<close>\<close>

definition round_percent_of :: "pyval \<Rightarrow> pyval \<Rightarrow> pyval result" where
  "round_percent_of a b =
     bind_result (as_num a) (\<lambda>x.
     bind_result (as_num b) (\<lambda>y.
       if y = 0 then Inl ZeroDivisionError
       else py_rounded (np_round (x * 100 / y) 6)))"

text \<open>\<open>np.round(a * 100, 6)\<close>\<close>

definition round_percent :: "pyval \<Rightarrow> pyval result" where
  "round_percent a = bind_result (as_num a) (\<lambda>x. py_rounded (np_round (x * 100) 6))"

text \<open>\<open>np.round(a * b, 2)\<close>\<close>

definition round_product :: "pyval \<Rightarrow> pyval \<Rightarrow> pyval result" where
  "round_product a b =
     bind_result (as_num a) (\<lambda>x.
     bind_result (as_num b) (\<lambda>y. py_rounded (np_round (x * y) 2)))"

text \<open>\<open>np.round(a, 2)\<close>\<close>

definition round_2 :: "pyval \<Rightarrow> pyval result" where
  "round_2 a = bind_result (as_num a) (\<lambda>x. py_rounded (np_round x 2))"

section \<open>Text to numbers: \<open>float\<close>, \<open>int\<close> and \<open>json.loads\<close>\<close>

text \<open>
  The three library routines are modelled on decimal numerals. \<open>json.loads\<close> is
  modelled on arrays of numbers: the number pattern of the decoder
  (\<open>-?(0|[1-9][0-9]*)(\.[0-9]+)?([eE][-+]?[0-9]+)?\<close>), its white space and its array loop.
  A text that may hold another kind of JSON value gives \<open>OutsideModel\<close>. \<open>float\<close>
  and \<open>int\<close> are modelled on plain numerals (sign, digits, point, exponent, surrounding
  white space); a text they might accept in another form (underscores, \<open>inf\<close>,
  \<open>nan\<close>, non-ASCII digits or spaces) gives \<open>OutsideModel\<close>. A text is a list of
  characters below 256. The value of a numeral is its exact decimal value: the rounding
  and overflow of binary floating point and the interpreter's limit on the number of
  digits of an integer literal are not modelled.
\<close>

definition is_digit :: "char \<Rightarrow> bool" where
  "is_digit c = (c \<in> set ''0123456789'')"

definition digit_val :: "char \<Rightarrow> nat" where
  "digit_val c = length (takeWhile (\<lambda>d. d \<noteq> c) ''0123456789'')"

definition digits_val :: "string \<Rightarrow> nat" where
  "digits_val ds = foldl (\<lambda>n c. 10 * n + digit_val c) 0 ds"

definition is_exp_char :: "char \<Rightarrow> bool" where
  "is_exp_char c = (c = CHR ''e'' \<or> c = CHR ''E'')"

definition decimal_value :: "bool \<Rightarrow> string \<Rightarrow> string \<Rightarrow> int \<Rightarrow> real" where
  "decimal_value neg ip fp ex =
     (let m = real (digits_val ip) + real (digits_val fp) / 10 ^ length fp;
          x = (if 0 \<le> ex then m * 10 ^ nat ex else m / 10 ^ nat (- ex))
      in if neg then - x else x)"

definition minus_sign :: "string \<Rightarrow> bool \<times> string" where
  "minus_sign s = (case s of c # r \<Rightarrow> if c = CHR ''-'' then (True, r) else (False, s) | [] \<Rightarrow> (False, s))"

definition plus_minus_sign :: "string \<Rightarrow> bool \<times> string" where
  "plus_minus_sign s =
     (case s of
        c # r \<Rightarrow> if c = CHR ''-'' then (True, r) else if c = CHR ''+'' then (False, r) else (False, s)
      | [] \<Rightarrow> (False, s))"

definition json_int_part :: "string \<Rightarrow> (string \<times> string) option" where
  "json_int_part s =
     (case s of
        [] \<Rightarrow> None
      | c # r \<Rightarrow>
          if c = CHR ''0'' then Some ([c], r)
          else if is_digit c then Some (takeWhile is_digit s, dropWhile is_digit s)
          else None)"

definition json_frac_part :: "string \<Rightarrow> string \<times> string" where
  "json_frac_part s =
     (case s of
        [] \<Rightarrow> ([], s)
      | c # r \<Rightarrow>
          if c = CHR ''.'' \<and> takeWhile is_digit r \<noteq> []
          then (takeWhile is_digit r, dropWhile is_digit r)
          else ([], s))"

definition exponent_part :: "string \<Rightarrow> int \<times> string" where
  "exponent_part s =
     (case s of
        [] \<Rightarrow> (0, s)
      | c # r \<Rightarrow>
          if is_exp_char c then
            (let (neg, t) = plus_minus_sign r
             in if takeWhile is_digit t = [] then (0, s)
                else ((if neg then - int (digits_val (takeWhile is_digit t))
                       else int (digits_val (takeWhile is_digit t))),
                      dropWhile is_digit t))
          else (0, s))"

definition match_number :: "string \<Rightarrow> (real \<times> string) option" where
  "match_number s =
     (let (neg, s1) = minus_sign s
      in case json_int_part s1 of
           None \<Rightarrow> None
         | Some (ip, s2) \<Rightarrow>
             (let (fp, s3) = json_frac_part s2;
                  (ex, s4) = exponent_part s3
              in Some (decimal_value neg ip fp ex, s4)))"

definition is_json_ws :: "char \<Rightarrow> bool" where
  "is_json_ws c = (c \<in> set [CHR '' '', CHR 0x09, CHR 0x0A, CHR 0x0D])"

definition skip_ws :: "string \<Rightarrow> string" where
  "skip_ws s = dropWhile is_json_ws s"

definition scan_once :: "string \<Rightarrow> (real \<times> string) result" where
  "scan_once s =
     (case match_number s of
        Some vr \<Rightarrow> Inr vr
      | None \<Rightarrow>
          (case s of
             [] \<Rightarrow> Inl JSONDecodeError
           | c # _ \<Rightarrow>
               if c \<in> set [CHR 0x22, CHR ''['', CHR ''{'', CHR ''n'', CHR ''t'', CHR ''f'',
                            CHR ''N'', CHR ''I'', CHR ''-'']
               then Inl OutsideModel else Inl JSONDecodeError))"

lemma length_dropWhile_less: "length (dropWhile P xs) < Suc (length xs)"
  by (simp add: less_Suc_eq_le length_dropWhile_le)

lemma length_minus_sign: "minus_sign s = (n, r) \<Longrightarrow> length r \<le> length s"
  by (auto simp: minus_sign_def split: list.splits if_splits)

lemma length_plus_minus_sign: "plus_minus_sign s = (n, r) \<Longrightarrow> length r \<le> length s"
  by (auto simp: plus_minus_sign_def split: list.splits if_splits)

lemma length_json_int_part: "json_int_part s = Some (ip, r) \<Longrightarrow> length r < length s"
  by (auto simp: json_int_part_def length_dropWhile_less split: list.splits if_splits)

lemma length_json_frac_part: "json_frac_part s = (fp, r) \<Longrightarrow> length r \<le> length s"
  by (auto simp: json_frac_part_def intro: le_SucI length_dropWhile_le split: list.splits if_splits)

lemma length_exponent_part:
  assumes "exponent_part s = (ex, r)" shows "length r \<le> length s"
proof (cases s)
  case Nil
  then show ?thesis using assms by (simp add: exponent_part_def)
next
  case (Cons c t)
  obtain neg u where pm: "plus_minus_sign t = (neg, u)" by (cases "plus_minus_sign t")
  then have "length u \<le> length t" by (rule length_plus_minus_sign)
  moreover have "length (dropWhile is_digit u) \<le> length u" by (rule length_dropWhile_le)
  ultimately have "length (dropWhile is_digit u) \<le> length s" using Cons by simp
  then show ?thesis
    using assms Cons pm by (auto simp: exponent_part_def split: if_splits)
qed

lemma length_match_number:
  assumes "match_number s = Some (v, r)" shows "length r < length s"
proof -
  obtain neg s1 where ms: "minus_sign s = (neg, s1)" by (cases "minus_sign s")
  from assms ms obtain ip s2 where ip: "json_int_part s1 = Some (ip, s2)"
    by (auto simp: match_number_def split: option.splits)
  obtain fp s3 where fp: "json_frac_part s2 = (fp, s3)" by (cases "json_frac_part s2")
  obtain ex s4 where ex: "exponent_part s3 = (ex, s4)" by (cases "exponent_part s3")
  from assms ms ip fp ex have "r = s4" by (simp add: match_number_def)
  moreover have "length s1 \<le> length s" using ms by (rule length_minus_sign)
  moreover have "length s2 < length s1" using ip by (rule length_json_int_part)
  moreover have "length s3 \<le> length s2" using fp by (rule length_json_frac_part)
  moreover have "length s4 \<le> length s3" using ex by (rule length_exponent_part)
  ultimately show ?thesis by simp
qed

function json_elements :: "string \<Rightarrow> (real list \<times> string) result" where
  "json_elements s =
     (case scan_once s of
        Inl e \<Rightarrow> Inl e
      | Inr (v, r) \<Rightarrow>
          (case skip_ws r of
             [] \<Rightarrow> Inl JSONDecodeError
           | c # rest \<Rightarrow>
               if c = CHR '']'' then Inr ([v], rest)
               else if c = CHR '','' then
                 (case json_elements (skip_ws rest) of
                    Inl e \<Rightarrow> Inl e
                  | Inr (vs, rest') \<Rightarrow> Inr (v # vs, rest'))
               else Inl JSONDecodeError))"
  by pat_completeness auto
termination
proof (relation "measure length")
  show "wf (measure length)" by simp
next
  fix s :: string and x2 :: "real \<times> string" and v r c rest
  assume a: "scan_once s = Inr x2" "(v, r) = x2" "skip_ws r = c # rest"
  from a(1,2) have "match_number s = Some (v, r)"
    by (auto simp: scan_once_def split: option.splits list.splits if_splits)
  then have "length r < length s" by (rule length_match_number)
  moreover have "length (skip_ws r) \<le> length r" by (simp add: skip_ws_def length_dropWhile_le)
  moreover have "length (skip_ws rest) \<le> length rest" by (simp add: skip_ws_def length_dropWhile_le)
  ultimately show "(skip_ws rest, s) \<in> measure length" using a(3) by simp
qed

declare json_elements.simps [simp del]

definition json_array :: "string \<Rightarrow> (real list \<times> string) result" where
  "json_array s =
     (case skip_ws s of
        [] \<Rightarrow> json_elements []
      | c # rest \<Rightarrow> if c = CHR '']'' then Inr ([], rest) else json_elements (c # rest))"

definition json_loads :: "string \<Rightarrow> real list result" where
  "json_loads s =
     (case skip_ws s of
        [] \<Rightarrow> Inl JSONDecodeError
      | c # r \<Rightarrow>
          if c = CHR ''['' then
            (case json_array r of
               Inl e \<Rightarrow> Inl e
             | Inr (vs, rest) \<Rightarrow> if skip_ws rest = [] then Inr vs else Inl JSONDecodeError)
          else Inl OutsideModel)"

definition is_py_ws :: "char \<Rightarrow> bool" where
  "is_py_ws c = (c \<in> set [CHR '' '', CHR 0x09, CHR 0x0A, CHR 0x0B, CHR 0x0C, CHR 0x0D])"

definition py_strip :: "string \<Rightarrow> string" where
  "py_strip s = rev (dropWhile is_py_ws (rev (dropWhile is_py_ws s)))"

text \<open>
  Characters with which \<open>float\<close> or \<open>int\<close> may accept a text that is not a plain
  numeral: the underscore, the letters of \<open>inf\<close>, \<open>infinity\<close> and \<open>nan\<close>,
  the separator control characters and everything beyond ASCII. A rejected text without
  any of them raises \<open>ValueError\<close>.
\<close>

definition py_exotic :: "char \<Rightarrow> bool" where
  "py_exotic c =
     (c \<in> set ''_infatyINFATY'' \<or> c \<in> set [CHR 0x1C, CHR 0x1D, CHR 0x1E, CHR 0x1F]
      \<or> 128 \<le> (of_char c :: nat))"

definition strtod_frac_part :: "string \<Rightarrow> string \<times> string" where
  "strtod_frac_part s =
     (case s of
        [] \<Rightarrow> ([], s)
      | c # r \<Rightarrow> if c = CHR ''.'' then (takeWhile is_digit r, dropWhile is_digit r) else ([], s))"

definition strtod :: "string \<Rightarrow> (real \<times> string) option" where
  "strtod s =
     (let (neg, s1) = plus_minus_sign s;
          ip = takeWhile is_digit s1;
          (fp, s3) = strtod_frac_part (dropWhile is_digit s1)
      in if ip = [] \<and> fp = [] then None
         else (let (ex, s4) = exponent_part s3
               in Some (decimal_value neg ip fp ex, s4)))"

definition py_float :: "string \<Rightarrow> real result" where
  "py_float s =
     (case strtod (py_strip s) of
        Some (v, []) \<Rightarrow> Inr v
      | _ \<Rightarrow> if list_ex py_exotic s then Inl OutsideModel else Inl ValueError)"

definition py_int :: "string \<Rightarrow> int result" where
  "py_int s =
     (let (neg, t) = plus_minus_sign (py_strip s)
      in if t \<noteq> [] \<and> list_all is_digit t
         then Inr (if neg then - int (digits_val t) else int (digits_val t))
         else if list_ex py_exotic s then Inl OutsideModel else Inl ValueError)"


section \<open>The configuration form: \<open>gui_config\<close>\<close>

subsection \<open>\<open>str_to_list\<close>\<close>

definition str_to_list :: "string \<Rightarrow> real list result" where
  "str_to_list string = json_loads (concat [''['', string, '']''])"

subsection \<open>\<open>check_inverter\<close>\<close>

text \<open>
  The widgets \<open>check_inverter\<close> reads. \<open>inv_drop\<close> is the value of the inverter
  drop-down at \<open>inverter_vbox.children[3]\<close>, \<open>None\<close> while that widget has not been
  built (the index raises). \<open>retrieve_sam_inverter\<close> is the database lookup
  \<open>dict(pvlib.pvsystem.retrieve_sam(database)[name])\<close>, \<open>None\<close> when it raises.
  \<open>btn_files\<close> is the \<open>files\<close> dictionary filled by the OND loader.

  \<open>inv_conf\<close> is the manual panel at \<open>inverter_vbox.children[2]\<close>.
  \<open>handle_dropdown_manual\<close> builds it when a format is chosen in \<open>dropdown_manual\<close>
  (nine number fields for \<open>SNL PVlib\<close>, two otherwise), and \<open>handle_toggle\<close> removes
  it on every switch of \<open>inverter_btn\<close>, while \<open>dropdown_manual\<close> keeps its value.
  So \<open>inv_conf\<close> is \<open>None\<close> while the panel is absent, and else the numbers entered
  in its rows, in order.
\<close>

record inverter_form =
  inverter_btn :: "string option"
  dropdown_invrepo :: "string option"
  inv_drop :: "string option option"
  retrieve_sam_inverter :: "string option \<Rightarrow> string option \<Rightarrow> pydict option"
  btn_files :: "(string \<times> pydict) list"
  dropdown_manual :: "string option"
  inv_conf :: "real list option"

text \<open>
  \<open>inverter_vbox.children[2].children[k].children[1].value\<close>: the number in row \<open>k\<close>
  of the manual panel (row \<open>0\<close> is the heading). An index beyond the children raises
  \<open>IndexError\<close>.
\<close>

definition panel_value :: "real list option \<Rightarrow> nat \<Rightarrow> pyval result" where
  "panel_value panel k =
     (case panel of
        None \<Rightarrow> Inl IndexError
      | Some rows \<Rightarrow>
          if 1 \<le> k \<and> k \<le> length rows then Inr (PyNum (rows ! (k - 1)))
          else Inl IndexError)"

text \<open>The returned list \<open>[inverters_database, inverter_name, inverter, ac_model]\<close>.\<close>

record inverter_status =
  inverters_database :: "string option"
  inverter_name :: "string option"
  inverter_params :: pydict
  inverter_ac_model :: string

definition check_inverter :: "inverter_form \<Rightarrow> inverter_status result" where
  "check_inverter f =
     (if inverter_btn f = Some ''Repositorio'' then
        (case inv_drop f of
           None \<Rightarrow> Inl IndexError
         | Some name \<Rightarrow>
             (case retrieve_sam_inverter f (dropdown_invrepo f) name of
                None \<Rightarrow> Inl CollaboratorError
              | Some inverter \<Rightarrow>
                  bind_result
                    (dict_literal
                       [(''Paco'', dict_get inverter ''Paco''),
                        (''Pdco'', dict_get inverter ''Pdco''),
                        (''Vdco'', dict_get inverter ''Vdco''),
                        (''Pso'', dict_get inverter ''Pso''),
                        (''C0'', dict_get inverter ''C0''),
                        (''C1'', dict_get inverter ''C1''),
                        (''C2'', dict_get inverter ''C2''),
                        (''C3'', dict_get inverter ''C3''),
                        (''Pnt'', dict_get inverter ''Pnt'')])
                    (\<lambda>inverter'.
                       Inr \<lparr> inverters_database = dropdown_invrepo f, inverter_name = name,
                             inverter_params = inverter', inverter_ac_model = ''sandia'' \<rparr>)))
      else if inverter_btn f = Some ''PVsyst'' then
        (case map_of (btn_files f) ''inv'' of
           None \<Rightarrow> Inl KeyError
         | Some inverter \<Rightarrow>
             bind_result
               (dict_literal
                  [(''Pdco'', dict_get inverter ''Pdco''),
                   (''eta_inv_nom'', dict_get inverter ''eta_inv_nom'')])
               (\<lambda>inverter'.
                  Inr \<lparr> inverters_database = None, inverter_name = None,
                        inverter_params = inverter', inverter_ac_model = ''pvwatts'' \<rparr>))
      else if inverter_btn f = Some ''Manual'' then
        (if dropdown_manual f = Some ''SNL PVlib'' then
           bind_result
             (dict_literal
                [(''Paco'', panel_value (inv_conf f) 1),
                 (''Pdco'', panel_value (inv_conf f) 2),
                 (''Vdco'', panel_value (inv_conf f) 3),
                 (''Pso'', panel_value (inv_conf f) 4),
                 (''C0'', panel_value (inv_conf f) 5),
                 (''C1'', panel_value (inv_conf f) 6),
                 (''C2'', panel_value (inv_conf f) 7),
                 (''C3'', panel_value (inv_conf f) 8),
                 (''Pnt'', panel_value (inv_conf f) 9)])
             (\<lambda>inverter.
                Inr \<lparr> inverters_database = None, inverter_name = None,
                      inverter_params = inverter, inverter_ac_model = ''sandia'' \<rparr>)
         else if dropdown_manual f = Some ''NREL PVWatts'' then
           bind_result
             (dict_literal
                [(''Pdco'', panel_value (inv_conf f) 1),
                 (''eta_inv_nom'', panel_value (inv_conf f) 2)])
             (\<lambda>inverter.
                Inr \<lparr> inverters_database = None, inverter_name = None,
                      inverter_params = inverter, inverter_ac_model = ''pvwatts'' \<rparr>)
         else Inl UnboundLocalError)
      else Inl UnboundLocalError)"

subsection \<open>\<open>check_module\<close>\<close>

text \<open>The technology chain of \<open>check_module\<close>, on a string.\<close>

definition module_tec :: "string \<Rightarrow> string option" where
  "module_tec t =
     (if t \<in> set [''Mono-c-Si'', ''monoSi'', ''monosi'', ''c-Si'', ''xsi'', ''mtSiMono'']
        then Some ''monosi''
      else if t \<in> set [''Multi-c-Si'', ''multiSi'', ''multisi'', ''mc-Si'', ''EFG mc-Si'']
        then Some ''multisi''
      else if t \<in> set [''polySi'', ''polysi'', ''mtSiPoly'']
        then Some ''polisi''
      else if t \<in> set [''CIS'', ''cis'']
        then Some ''cis''
      else if t \<in> set [''CIGS'', ''cigs'']
        then Some ''cigs''
      else if t \<in> set [''CdTe'', ''cdte'', ''Thin Film'', ''GaAs'']
        then Some ''cdte''
      else if t \<in> set [''amorphous'', ''asi'', ''a-Si / mono-Si'', ''2-a-Si'', ''3-a-Si'',
                         ''Si-Film'', ''HIT-Si'']
        then Some ''asi''
      else None)"

text \<open>A value that is not a string is in none of the lists.\<close>

definition technology_value :: "pyval \<Rightarrow> pyval" where
  "technology_value t =
     (case t of
        PyStr s \<Rightarrow> (case module_tec s of None \<Rightarrow> PyNone | Some tag \<Rightarrow> PyStr tag)
      | _ \<Rightarrow> PyNone)"

text \<open>The dictionary displays of \<open>check_module\<close>, one per source schema.\<close>

definition module_from_cec :: "pydict \<Rightarrow> pydict result" where
  "module_from_cec module0 =
     dict_literal
       [(''T_NOCT'', dict_get module0 ''T_NOCT''),
        (''Technology'', dict_get module0 ''Technology''),
        (''N_s'', dict_get module0 ''N_s''),
        (''I_sc_ref'', dict_get module0 ''I_sc_ref''),
        (''V_oc_ref'', dict_get module0 ''V_oc_ref''),
        (''I_mp_ref'', dict_get module0 ''I_mp_ref''),
        (''V_mp_ref'', dict_get module0 ''V_mp_ref''),
        (''alpha_sc'', bind_result (dict_get module0 ''alpha_sc'') (\<lambda>a.
                        bind_result (dict_get module0 ''I_sc_ref'') (round_percent_of a))),
        (''beta_oc'', bind_result (dict_get module0 ''beta_oc'') (\<lambda>b.
                       bind_result (dict_get module0 ''V_oc_ref'') (round_percent_of b))),
        (''gamma_r'', dict_get module0 ''gamma_r''),
        (''STC'', dict_get module0 ''STC'')]"

definition module_from_sandia :: "pydict \<Rightarrow> pydict result" where
  "module_from_sandia module0 =
     dict_literal
       [(''T_NOCT'', Inr (PyNum 45)),
        (''Technology'', dict_get module0 ''Material''),
        (''N_s'', dict_get module0 ''Cells_in_Series''),
        (''I_sc_ref'', dict_get module0 ''Isco''),
        (''V_oc_ref'', dict_get module0 ''Voco''),
        (''I_mp_ref'', dict_get module0 ''Impo''),
        (''V_mp_ref'', dict_get module0 ''Vmpo''),
        (''alpha_sc'', bind_result (dict_get module0 ''Aisc'') round_percent),
        (''beta_oc'', bind_result (dict_get module0 ''Bvoco'') (\<lambda>b.
                       bind_result (dict_get module0 ''Voco'') (round_percent_of b))),
        (''gamma_r'', Inr (PyNum 0)),
        (''STC'', bind_result (dict_get module0 ''Impo'') (\<lambda>i.
                   bind_result (dict_get module0 ''Vmpo'') (round_product i)))]"

definition module_from_pvfree_cec :: "pydict \<Rightarrow> pydict result" where
  "module_from_pvfree_cec module0 =
     dict_literal
       [(''T_NOCT'', dict_get module0 ''T_NOCT''),
        (''Technology'', dict_get module0 ''Technology''),
        (''N_s'', dict_get module0 ''N_s''),
        (''I_sc_ref'', dict_get module0 ''I_sc_ref''),
        (''V_oc_ref'', dict_get module0 ''V_oc_ref''),
        (''I_mp_ref'', dict_get module0 ''I_mp_ref''),
        (''V_mp_ref'', dict_get module0 ''V_mp_ref''),
        (''alpha_sc'', dict_get module0 ''alpha_sc''),
        (''beta_oc'', dict_get module0 ''beta_oc''),
        (''gamma_r'', dict_get module0 ''gamma_r''),
        (''STC'', dict_get module0 ''STC'')]"

definition module_from_pan :: "pydict \<Rightarrow> pydict result" where
  "module_from_pan module0 =
     dict_literal
       [(''T_NOCT'', dict_get module0 ''TRef''),
        (''Technology'', dict_get module0 ''Technol''),
        (''N_s'', dict_get module0 ''NCelS''),
        (''I_sc_ref'', dict_get module0 ''Isc''),
        (''V_oc_ref'', dict_get module0 ''Voc''),
        (''I_mp_ref'', dict_get module0 ''Imp''),
        (''V_mp_ref'', dict_get module0 ''Vmp''),
        (''alpha_sc'', bind_result (dict_get module0 ''mIsc_percent'') round_2),
        (''beta_oc'', bind_result (dict_get module0 ''mVoc_percent'') round_2),
        (''gamma_r'', dict_get module0 ''mPmpp''),
        (''STC'', dict_get module0 ''Pmpp'')]"

text \<open>
  \<open>module['a_ref'] = module['Gamma'] * module['NCelS'] * (1.38e-23 * (273.15 + 25) / 1.6e-19)\<close>
\<close>

definition set_a_ref :: "pydict \<Rightarrow> pydict result" where
  "set_a_ref module0 =
     bind_result (dict_get module0 ''Gamma'') (\<lambda>g.
     bind_result (dict_get module0 ''NCelS'') (\<lambda>n.
     bind_result (as_num g) (\<lambda>x.
     bind_result (as_num n) (\<lambda>y.
       Inr (dict_set module0 ''a_ref''
              (PyNum (x * y * (138 / 10 ^ 25 * (27315 / 100 + 25) / (16 / 10 ^ 20)))))))))"

text \<open>
  The widgets \<open>check_module\<close> reads. \<open>mod_drop\<close> is the module drop-down at
  \<open>module_vbox.children[3]\<close> of the repository panel (\<open>None\<close>: not built yet);
  \<open>retrieve_sam_module\<close> and \<open>requests_get\<close> are the two external lookups, \<open>None\<close>
  when they raise; \<open>modbtn_files\<close> is the \<open>files\<close> dictionary filled by the PAN
  loader.
\<close>

record module_form =
  module_btn :: "string option"
  dropdown_modrepo :: "string option"
  mod_drop :: "string option option"
  retrieve_sam_module :: "string option \<Rightarrow> string option \<Rightarrow> pydict option"
  dropdown_pvfree :: "string option"
  pvfree_id :: int
  requests_get :: "string option \<Rightarrow> int \<Rightarrow> pydict option"
  modbtn_files :: "(string \<times> pydict) list"
  w_T_NOCT :: real
  w_Type :: "string option"
  w_N_s :: real
  w_I_sc_ref :: real
  w_V_oc_ref :: real
  w_I_mp_ref :: real
  w_V_mp_ref :: real
  w_alpha_sc :: real
  w_beta_oc :: real
  w_gamma_r :: real
  w_STC :: real
  dropdown_bifacial :: bool
  w_bifaciality :: real
  w_rowheight :: real
  w_rowwidth :: real

definition module_from_manual :: "module_form \<Rightarrow> pydict" where
  "module_from_manual f =
     [(''T_NOCT'', PyNum (w_T_NOCT f)),
      (''Technology'', (case w_Type f of None \<Rightarrow> PyNone | Some s \<Rightarrow> PyStr s)),
      (''N_s'', PyNum (w_N_s f)),
      (''I_sc_ref'', PyNum (w_I_sc_ref f)),
      (''V_oc_ref'', PyNum (w_V_oc_ref f)),
      (''I_mp_ref'', PyNum (w_I_mp_ref f)),
      (''V_mp_ref'', PyNum (w_V_mp_ref f)),
      (''alpha_sc'', PyNum (w_alpha_sc f)),
      (''beta_oc'', PyNum (w_beta_oc f)),
      (''gamma_r'', PyNum (w_gamma_r f)),
      (''STC'', PyNum (w_STC f))]"

text \<open>
  The returned list
  \<open>[modules_database, modules_name, module, bifacial, bifaciality, row_height, row_width]\<close>.
\<close>

record module_status =
  modules_database :: "string option"
  modules_name :: pyval
  module_params :: pydict
  module_bifacial :: bool
  module_bifaciality :: real
  module_row_height :: real
  module_row_width :: real

text \<open>
  The first half of \<open>check_module\<close>: the three \<open>if\<close> statements on
  \<open>module_btn.value\<close>, which bind \<open>modules_database\<close>, \<open>modules_name\<close> and
  \<open>module\<close>. When no statement applies \<open>module\<close> stays unbound and the next line
  raises.
\<close>

definition select_module :: "module_form \<Rightarrow> (string option \<times> pyval \<times> pydict) result" where
  "select_module f =
     (if module_btn f = Some ''Repositorio'' then
        (if dropdown_modrepo f \<noteq> Some ''PVFree'' then
           (case mod_drop f of
              None \<Rightarrow> Inl IndexError
            | Some name \<Rightarrow>
                (case retrieve_sam_module f (dropdown_modrepo f) name of
                   None \<Rightarrow> Inl CollaboratorError
                 | Some module0 \<Rightarrow>
                     bind_result
                       (if dropdown_modrepo f = Some ''CECMod'' then module_from_cec module0
                        else if dropdown_modrepo f = Some ''SandiaMod'' then module_from_sandia module0
                        else Inr module0)
                       (\<lambda>module'.
                          Inr (dropdown_modrepo f,
                               (case name of None \<Rightarrow> PyNone | Some s \<Rightarrow> PyStr s),
                               module'))))
         else
           (case requests_get f (dropdown_pvfree f) (pvfree_id f) of
              None \<Rightarrow> Inl CollaboratorError
            | Some module0 \<Rightarrow>
                bind_result (dict_get module0 ''Name'') (\<lambda>name.
                bind_result
                  (if dropdown_pvfree f = Some ''cecmodule'' then module_from_pvfree_cec module0
                   else if dropdown_pvfree f = Some ''pvmodule'' then module_from_sandia module0
                   else Inr module0)
                  (\<lambda>module'. Inr (dropdown_modrepo f, name, module')))))
      else if module_btn f = Some ''PVsyst'' then
        (case map_of (modbtn_files f) ''mod'' of
           None \<Rightarrow> Inl KeyError
         | Some module0 \<Rightarrow>
             bind_result (set_a_ref module0) (\<lambda>module'.
             bind_result (module_from_pan module') (\<lambda>module''.
               Inr (None, PyNone, module''))))
      else if module_btn f = Some ''Manual'' then
        Inr (None, PyNone, module_from_manual f)
      else Inl UnboundLocalError)"

definition check_module :: "module_form \<Rightarrow> module_status result" where
  "check_module f =
     bind_result (select_module f) (\<lambda>(database, name, module0).
     bind_result (dict_get module0 ''Technology'') (\<lambda>t.
       let module' = dict_set module0 ''Technology'' (technology_value t)
       in if dropdown_bifacial f = False then
            Inr \<lparr> modules_database = database, modules_name = name, module_params = module',
                  module_bifacial = False, module_bifaciality = 0,
                  module_row_height = 0, module_row_width = 0 \<rparr>
          else
            Inr \<lparr> modules_database = database, modules_name = name, module_params = module',
                  module_bifacial = True, module_bifaciality = w_bifaciality f,
                  module_row_height = w_rowheight f, module_row_width = w_rowwidth f \<rparr>))"

subsection \<open>\<open>check_mount\<close> and \<open>check_econfig\<close>\<close>

text \<open>
  One per-subarray field: \<open>[float(text)]\<close> when \<open>num_arrays == 1\<close>,
  \<open>str_to_list(text)\<close> when \<open>num_arrays > 1\<close>; otherwise neither branch runs and the
  variable stays unassigned (\<open>None\<close> here).
\<close>

definition per_subarray_floats :: "int \<Rightarrow> string \<Rightarrow> real list option result" where
  "per_subarray_floats num_arrays text =
     (if num_arrays = 1 then bind_result (py_float text) (\<lambda>v. Inr (Some [v]))
      else if num_arrays > 1 then bind_result (str_to_list text) (\<lambda>vs. Inr (Some vs))
      else Inr None)"

definition per_subarray_ints :: "int \<Rightarrow> string \<Rightarrow> real list option result" where
  "per_subarray_ints num_arrays text =
     (if num_arrays = 1 then bind_result (py_int text) (\<lambda>v. Inr (Some [of_int v]))
      else if num_arrays > 1 then bind_result (str_to_list text) (\<lambda>vs. Inr (Some vs))
      else Inr None)"

text \<open>The racking chain; \<open>None\<close>: \<open>module_type\<close> stays unassigned.\<close>

definition module_type_of :: "string option \<Rightarrow> string option" where
  "module_type_of racking_model =
     (if racking_model = Some ''open_rack'' then Some ''glass_glass''
      else if racking_model = Some ''close_mount'' then Some ''glass_glass''
      else if racking_model = Some ''insulated_back'' then Some ''glass_polymer''
      else None)"

text \<open>
  The widgets of the panel \<open>sysconfig_vbox.children[2]\<close>, which the toggle handler
  builds for the selected mode: tilt, azimuth and racking for a fixed mount; axis tilt,
  axis azimuth, maximum angle and racking for a tracker.
\<close>

record mount_form =
  tracker_btn :: "string option"
  w_Tilt :: string
  w_Azimuth :: string
  w_AxisTilt :: string
  w_AxisAzimuth :: string
  w_MaxAngle :: string
  w_Racking :: "string option"

text \<open>
  The returned list \<open>[with_tracker, surface_azimuth, surface_tilt, axis_tilt,
  axis_azimuth, max_angle, module_type, racking_model]\<close>.
\<close>

record mount_status =
  mount_with_tracker :: bool
  mount_surface_azimuth :: "real list option"
  mount_surface_tilt :: "real list option"
  mount_axis_tilt :: "real list option"
  mount_axis_azimuth :: "real list option"
  mount_max_angle :: "real list option"
  mount_module_type :: string
  mount_racking_model :: "string option"

definition check_mount :: "mount_form \<Rightarrow> int \<Rightarrow> mount_status result" where
  "check_mount f num_arrays =
     (if tracker_btn f = Some ''Sin Seguidor'' then
        bind_result (per_subarray_floats num_arrays (w_Tilt f)) (\<lambda>surface_tilt.
        bind_result (per_subarray_floats num_arrays (w_Azimuth f)) (\<lambda>surface_azimuth.
        bind_result (bound surface_azimuth) (\<lambda>azimuth.
        bind_result (bound surface_tilt) (\<lambda>tilt.
        bind_result (bound (module_type_of (w_Racking f))) (\<lambda>module_type.
          Inr \<lparr> mount_with_tracker = False,
                mount_surface_azimuth = Some azimuth, mount_surface_tilt = Some tilt,
                mount_axis_tilt = None, mount_axis_azimuth = None, mount_max_angle = None,
                mount_module_type = module_type, mount_racking_model = w_Racking f \<rparr>)))))
      else if tracker_btn f = Some ''Seguidor 1-Eje'' then
        bind_result (per_subarray_floats num_arrays (w_AxisTilt f)) (\<lambda>axis_tilt.
        bind_result (per_subarray_floats num_arrays (w_AxisAzimuth f)) (\<lambda>axis_azimuth.
        bind_result (per_subarray_floats num_arrays (w_MaxAngle f)) (\<lambda>max_angle.
        bind_result (bound axis_tilt) (\<lambda>tilt.
        bind_result (bound axis_azimuth) (\<lambda>azimuth.
        bind_result (bound max_angle) (\<lambda>angle.
        bind_result (bound (module_type_of (w_Racking f))) (\<lambda>module_type.
          Inr \<lparr> mount_with_tracker = True,
                mount_surface_azimuth = None, mount_surface_tilt = None,
                mount_axis_tilt = Some tilt, mount_axis_azimuth = Some azimuth,
                mount_max_angle = Some angle,
                mount_module_type = module_type, mount_racking_model = w_Racking f \<rparr>)))))))
      else Inl UnboundLocalError)"

record econfig_form =
  w_mps :: string
  w_spi :: string
  w_numinv :: int

text \<open>The returned list \<open>[modules_per_string, strings_per_inverter, num_inverters]\<close>.\<close>

record econfig_status =
  econfig_modules_per_string :: "real list"
  econfig_strings_per_inverter :: "real list"
  econfig_num_inverters :: int

definition check_econfig :: "econfig_form \<Rightarrow> int \<Rightarrow> econfig_status result" where
  "check_econfig f num_arrays =
     (let num_inverters = w_numinv f
      in bind_result (per_subarray_ints num_arrays (w_mps f)) (\<lambda>modules_per_string.
         bind_result (per_subarray_ints num_arrays (w_spi f)) (\<lambda>strings_per_inverter.
         bind_result (bound modules_per_string) (\<lambda>mps.
         bind_result (bound strings_per_inverter) (\<lambda>spi.
           Inr \<lparr> econfig_modules_per_string = mps, econfig_strings_per_inverter = spi,
                 econfig_num_inverters = num_inverters \<rparr>)))))"

subsection \<open>\<open>sys_config\<close> and the generate button\<close>

record gui =
  w_latitude :: real
  w_longitude :: real
  w_timezone :: "string option"
  w_altitude :: real
  w_albedo :: real
  inverter_tab :: inverter_form
  module_tab :: module_form
  mount_tab :: mount_form
  econfig_tab :: econfig_form
  w_subarrays :: int
  w_loss :: real
  kpc_loss :: real
  kt_loss :: real
  kin_loss :: real
  w_name :: string

text \<open>The Plant Configuration: the dictionary \<open>sys_config\<close> builds, key by key.\<close>

record system_configuration =
  latitude :: real
  longitude :: real
  tz :: "string option"
  altitude :: real
  surface_albedo :: real
  inverter :: pydict
  ac_model :: string
  module :: pydict
  bifacial :: bool
  bifaciality :: real
  row_height :: real
  row_width :: real
  with_tracker :: bool
  surface_azimuth :: "real list option"
  surface_tilt :: "real list option"
  axis_tilt :: "real list option"
  axis_azimuth :: "real list option"
  max_angle :: "real list option"
  num_arrays :: int
  modules_per_string :: "real list"
  strings_per_inverter :: "real list"
  num_inverter :: int
  loss :: real
  kpc :: real
  kt :: real
  kin :: real
  name :: string

definition sys_config ::
  "gui \<Rightarrow> inverter_status \<Rightarrow> module_status \<Rightarrow> mount_status \<Rightarrow> econfig_status
     \<Rightarrow> system_configuration" where
  "sys_config g inverter_status module_status mount_status econfig_status =
     \<lparr> latitude = w_latitude g,
       longitude = w_longitude g,
       tz = w_timezone g,
       altitude = w_altitude g,
       surface_albedo = w_albedo g,
       inverter = inverter_params inverter_status,
       ac_model = inverter_ac_model inverter_status,
       module = module_params module_status,
       bifacial = module_bifacial module_status,
       bifaciality = module_bifaciality module_status,
       row_height = module_row_height module_status,
       row_width = module_row_width module_status,
       with_tracker = mount_with_tracker mount_status,
       surface_azimuth = mount_surface_azimuth mount_status,
       surface_tilt = mount_surface_tilt mount_status,
       axis_tilt = mount_axis_tilt mount_status,
       axis_azimuth = mount_axis_azimuth mount_status,
       max_angle = mount_max_angle mount_status,
       num_arrays = w_subarrays g,
       modules_per_string = econfig_modules_per_string econfig_status,
       strings_per_inverter = econfig_strings_per_inverter econfig_status,
       num_inverter = econfig_num_inverters econfig_status,
       loss = w_loss g,
       kpc = kpc_loss g,
       kt = kt_loss g,
       kin = kin_loss g,
       name = w_name g \<rparr>"

text \<open>
  \<open>on_genconfig_clicked\<close>: the four checks in order, then \<open>sys_config\<close>. The download
  button computes the same configuration before it writes the file.
\<close>

definition on_genconfig_clicked :: "gui \<Rightarrow> system_configuration result" where
  "on_genconfig_clicked g =
     bind_result (check_inverter (inverter_tab g)) (\<lambda>inverter_status.
     bind_result (check_module (module_tab g)) (\<lambda>module_status.
     bind_result (check_mount (mount_tab g) (w_subarrays g)) (\<lambda>mount_status.
     bind_result (check_econfig (econfig_tab g) (w_subarrays g)) (\<lambda>econfig_status.
       Inr (sys_config g inverter_status module_status mount_status econfig_status)))))"

section \<open>Numerals in text fields\<close>

text \<open>
  What the specification calls a number in a text field. \<open>json_number l\<close>: the decoder's
  number pattern matches all of \<open>l\<close>. \<open>numbers_text k text\<close>: cutting \<open>text\<close> at
  its commas gives \<open>k\<close> pieces, each a number with optional blanks around it.
  \<open>integer_text l\<close>: an optional minus sign and decimal digits. \<open>sep_start x\<close>: the
  text \<open>x\<close> cannot continue a numeral.
\<close>

definition sep_start :: "string \<Rightarrow> bool" where
  "sep_start x =
     (case x of
        [] \<Rightarrow> True
      | c # _ \<Rightarrow> \<not> is_digit c \<and> c \<notin> set [CHR ''+'', CHR ''-'', CHR ''.'', CHR ''e'', CHR ''E''])"

definition json_number :: "string \<Rightarrow> bool" where
  "json_number l = (case match_number l of Some (v, []) \<Rightarrow> True | _ \<Rightarrow> False)"

definition number_value :: "string \<Rightarrow> real" where
  "number_value l = (case match_number l of Some (v, r) \<Rightarrow> v | None \<Rightarrow> 0)"


fun split_commas :: "string \<Rightarrow> string list" where
  "split_commas [] = [] # []"
| "split_commas (c # cs) =
     (if c = CHR '','' then [] # split_commas cs
      else (case split_commas cs of [] \<Rightarrow> [c] # [] | p # ps \<Rightarrow> (c # p) # ps))"

definition strip_json_ws :: "string \<Rightarrow> string" where
  "strip_json_ws s = rev (dropWhile is_json_ws (rev (dropWhile is_json_ws s)))"

definition numbers_text :: "nat \<Rightarrow> string \<Rightarrow> bool" where
  "numbers_text k text =
     (length (split_commas text) = k \<and>
      list_all (\<lambda>p. json_number (strip_json_ws p)) (split_commas text))"

definition numbers_of_text :: "string \<Rightarrow> real list" where
  "numbers_of_text text = map (\<lambda>p. number_value (strip_json_ws p)) (split_commas text)"


definition integer_text :: "string \<Rightarrow> bool" where
  "integer_text l = (case minus_sign l of (neg, t) \<Rightarrow> t \<noteq> [] \<and> list_all is_digit t)"

definition integer_value :: "string \<Rightarrow> int" where
  "integer_value l =
     (case minus_sign l of (neg, t) \<Rightarrow> if neg then - int (digits_val t) else int (digits_val t))"


text \<open>The pieces of a text put together again, a comma between neighbours.\<close>

fun join_commas :: "string list \<Rightarrow> string" where
  "join_commas [] = []"
| "join_commas [p] = p"
| "join_commas (p # q # ps) = p @ CHR '','' # join_commas (q # ps)"

section \<open>The schemas of the specification\<close>

text \<open>
  The synonym table of the technology normalisation: each canonical tag with the
  spellings that belong to it.
\<close>

definition technology_synonyms :: "(string \<times> string list) list" where
  "technology_synonyms =
     [(''monosi'', [''Mono-c-Si'', ''monoSi'', ''monosi'', ''c-Si'', ''xsi'', ''mtSiMono'']),
      (''multisi'', [''Multi-c-Si'', ''multiSi'', ''multisi'', ''mc-Si'', ''EFG mc-Si'']),
      (''polisi'', [''polySi'', ''polysi'', ''mtSiPoly'']),
      (''cis'', [''CIS'', ''cis'']),
      (''cigs'', [''CIGS'', ''cigs'']),
      (''cdte'', [''CdTe'', ''cdte'', ''Thin Film'', ''GaAs'']),
      (''asi'', [''amorphous'', ''asi'', ''a-Si / mono-Si'', ''2-a-Si'', ''3-a-Si'',
                 ''Si-Film'', ''HIT-Si''])]"



definition sandia_inverter_fields :: "string list" where
  "sandia_inverter_fields =
     [''Paco'', ''Pdco'', ''Vdco'', ''Pso'', ''C0'', ''C1'', ''C2'', ''C3'', ''Pnt'']"

definition pvwatts_inverter_fields :: "string list" where
  "pvwatts_inverter_fields = [''Pdco'', ''eta_inv_nom'']"

definition racking_selected :: "mount_form \<Rightarrow> bool" where
  "racking_selected f =
     (w_Racking f = Some ''open_rack'' \<or> w_Racking f = Some ''close_mount'' \<or>
      w_Racking f = Some ''insulated_back'')"

section \<open>Example forms\<close>

text \<open>A manually entered inverter (SNL format) and a manually entered module.\<close>

definition example_inverter_form :: inverter_form where
  "example_inverter_form =
     \<lparr> inverter_btn = Some ''Manual'', dropdown_invrepo = None, inv_drop = None,
       retrieve_sam_inverter = (\<lambda>database name. None), btn_files = [],
       dropdown_manual = Some ''SNL PVlib'',
       inv_conf = Some [250000, 259589, 840, 1659, 0, 0, 0, 0, 75] \<rparr>"

text \<open>
  The same form after a switch to \<open>PVsyst\<close> and back to \<open>Manual\<close>: the format
  drop-down still shows \<open>SNL PVlib\<close>, the panel is gone.
\<close>

definition example_inverter_form_retoggled :: inverter_form where
  "example_inverter_form_retoggled = example_inverter_form \<lparr> inv_conf := None \<rparr>"

text \<open>A manually entered inverter in the PVWatts format.\<close>

definition example_pvwatts_inverter_form :: inverter_form where
  "example_pvwatts_inverter_form =
     example_inverter_form
       \<lparr> dropdown_manual := Some ''NREL PVWatts'', inv_conf := Some [259589, 98 / 100] \<rparr>"

definition example_module_form :: module_form where
  "example_module_form =
     \<lparr> module_btn = Some ''Manual'', dropdown_modrepo = None, mod_drop = None,
       retrieve_sam_module = (\<lambda>database name. None), dropdown_pvfree = None, pvfree_id = 0,
       requests_get = (\<lambda>database ident. None), modbtn_files = [],
       w_T_NOCT = 45, w_Type = Some ''monosi'', w_N_s = 72, w_I_sc_ref = 9, w_V_oc_ref = 46,
       w_I_mp_ref = 8, w_V_mp_ref = 38, w_alpha_sc = 5 / 100, w_beta_oc = - 3 / 10,
       w_gamma_r = - 4 / 10, w_STC = 330,
       dropdown_bifacial = False, w_bifaciality = 0, w_rowheight = 0, w_rowwidth = 0 \<rparr>"



text \<open>A CEC repository inverter record, and a loaded OND file.\<close>

definition example_cec_inverter :: pydict where
  "example_cec_inverter =
     [(''Vac'', PyNum 480), (''Pso'', PyNum 1659), (''Paco'', PyNum 250000),
      (''Pdco'', PyNum 259589), (''Vdco'', PyNum 840), (''C0'', PyNum 0), (''C1'', PyNum 0),
      (''C2'', PyNum 0), (''C3'', PyNum 0), (''Pnt'', PyNum 75)]"

definition example_repository_inverter_form :: inverter_form where
  "example_repository_inverter_form =
     example_inverter_form
       \<lparr> inverter_btn := Some ''Repositorio'', dropdown_invrepo := Some ''CECInverter'',
         inv_drop := Some (Some ''Example_Inverter''),
         retrieve_sam_inverter := (\<lambda>database name. Some example_cec_inverter) \<rparr>"

definition example_pvsyst_inverter_form :: inverter_form where
  "example_pvsyst_inverter_form =
     example_inverter_form
       \<lparr> inverter_btn := Some ''PVsyst'',
         btn_files := [(''inv'', [(''Paco'', PyNum 250000), (''Pdco'', PyNum 259589),
                                  (''eta_inv_nom'', PyNum 98), (''Name'', PyStr ''Example'')])] \<rparr>"

text \<open>
  Mount and wiring fields as the handlers preset them: \<open>'0'\<close> for one subarray,
  \<open>'0, 0, 0'\<close> for three.
\<close>

definition example_fixed_mount :: mount_form where
  "example_fixed_mount =
     \<lparr> tracker_btn = Some ''Sin Seguidor'', w_Tilt = ''10'', w_Azimuth = ''180'',
       w_AxisTilt = [], w_AxisAzimuth = [], w_MaxAngle = [],
       w_Racking = Some ''open_rack'' \<rparr>"

definition example_tracker_mount :: mount_form where
  "example_tracker_mount =
     \<lparr> tracker_btn = Some ''Seguidor 1-Eje'', w_Tilt = [], w_Azimuth = [],
       w_AxisTilt = ''0, 0, 0'', w_AxisAzimuth = ''180, 180, 180'', w_MaxAngle = ''45, 45, 45'',
       w_Racking = Some ''open_rack'' \<rparr>"

definition example_econfig_one :: econfig_form where
  "example_econfig_one = \<lparr> w_mps = ''18'', w_spi = ''40'', w_numinv = 1 \<rparr>"

definition example_econfig_three :: econfig_form where
  "example_econfig_three = \<lparr> w_mps = ''18, 18, 20'', w_spi = ''40, 40, 36'', w_numinv = 2 \<rparr>"

text \<open>
  One subarray with the modules per string written \<open>18.0\<close>, and a fixed mount on
  which no racking model has been chosen.
\<close>

definition example_econfig_decimal :: econfig_form where
  "example_econfig_decimal = example_econfig_one \<lparr> w_mps := ''18.0'' \<rparr>"

definition example_mount_no_racking :: mount_form where
  "example_mount_no_racking = example_fixed_mount \<lparr> w_Racking := None \<rparr>"

definition example_gui :: gui where
  "example_gui =
     \<lparr> w_latitude = 4, w_longitude = - 74, w_timezone = Some ''America/Bogota'',
       w_altitude = 2600, w_albedo = 1 / 5,
       inverter_tab = example_inverter_form, module_tab = example_module_form,
       mount_tab = example_fixed_mount, econfig_tab = example_econfig_one,
       w_subarrays = 1,
       w_loss = 146 / 10, kpc_loss = 0, kt_loss = 0, kin_loss = 0, w_name = [] \<rparr>"

definition example_gui_tracker :: gui where
  "example_gui_tracker =
     example_gui \<lparr> mount_tab := example_tracker_mount, econfig_tab := example_econfig_three,
                   w_subarrays := 3 \<rparr>"

section \<open>Properties of the capacity statistic\<close>

lemma bind_result_Inr [simp]: "bind_result (Inr v) f = f v"
  by (simp add: bind_result_def)

lemma bind_result_Inl [simp]: "bind_result (Inl e) f = Inl e"
  by (simp add: bind_result_def)

text \<open>
  Claim C6. For the samples \<open>[1, 2, 3, 4, 5]\<close> (watts), \<open>perc = 50\<close> and
  \<open>decimals = 6\<close>, \<open>get_cen\<close> returns the pair \<open>(3e-6, 5e-6)\<close>: the median and
  the maximum in megawatts, both finite and both decided by the rounding. The plotted
  probabilities are \<open>0, 1/4, 1/2, 3/4, 1\<close>.
\<close>

theorem get_cen_example:
  "get_cen [1, 2, 3, 4, 5] 50 6 curve =
     Inr \<lparr> cen_per = Decided (Finite (3 / 1000000)),
           cen_pmax = Decided (Finite (5 / 1000000)),
           curve_xy = (if curve then Some ([1, 2, 3, 4, 5],
              [Finite 0, Finite (1 / 4), Finite (1 / 2), Finite (3 / 4), Finite 1]) else None) \<rparr>"
  by (simp add: get_cen_def np_max_def np_percentile_def percentile_linear_def np_sort_def
      np_round_def near_tie_def near_overflow_def rint_def units_MW_def cen_p_def
      np_true_divide_def Let_def upt_conv_Cons eval_nat_numeral)












text \<open>
  Claim C8, as stated, fails: for the single sample \<open>[5]\<close> the division \<open>0.0 / 0\<close>
  of the rank formula is an array division, which yields \<open>nan\<close> and does not raise;
  \<open>get_cen\<close> goes on and returns a pair.
\<close>

theorem get_cen_single_sample_returns:
  "get_cen [5] 50 6 True =
     Inr \<lparr> cen_per = Decided (Finite (5 / 1000000)), cen_pmax = Decided (Finite (5 / 1000000)),
           curve_xy = Some ([5], [NaN]) \<rparr>"
  by (simp add: get_cen_def np_max_def np_percentile_def np_sort_def units_MW_def Let_def
      cen_p_def np_true_divide_def percentile_linear_def np_round_def near_tie_def
      near_overflow_def rint_def)

text \<open>
  Claim C8, amended. For a single sample \<open>x\<close> and a percentile argument in
  \<open>[0, 100]\<close> the rank formula gives the one probability \<open>nan\<close>, nothing is raised,
  and \<open>get_cen\<close> returns a pair whose two components are the same value; the curve
  it plots is the one point \<open>(x, nan)\<close>.
\<close>

theorem get_cen_single_sample:
  assumes "0 \<le> perc" "perc \<le> 100"
  shows "cen_p [x] = [NaN] \<and>
     (\<exists>r. get_cen [x] perc decimals curve = Inr r
        \<and> cen_per r = cen_pmax r
        \<and> curve_xy r = (if curve then Some ([x], [NaN]) else None))"
  using assms
  by (simp add: get_cen_def np_max_def np_percentile_def np_sort_def units_MW_def Let_def
      cen_p_def np_true_divide_def percentile_linear_def)

text \<open>
  The amended statement of C8 at the sample \<open>[7]\<close>.
\<close>

theorem get_cen_single_sample_witness:
  "(0::real) \<le> 95 \<and> (95::real) \<le> 100 \<and> cen_p [7] = [NaN] \<and>
   (\<exists>r. get_cen [7] 95 3 True = Inr r
      \<and> cen_per r = cen_pmax r
      \<and> curve_xy r = (if True then Some ([7], [NaN]) else None))"
  using get_cen_single_sample [of 95 7 3 True] by simp




section \<open>Properties of the number decoder\<close>

lemma takeWhile_digit_sep:
  "sep_start x \<Longrightarrow> takeWhile is_digit (t @ x) = takeWhile is_digit t"
  by (cases x) (auto simp: takeWhile_append sep_start_def takeWhile_eq_all_conv [THEN iffD2])

lemma dropWhile_digit_sep:
  "sep_start x \<Longrightarrow> dropWhile is_digit (t @ x) = dropWhile is_digit t @ x"
  by (cases x) (auto simp: dropWhile_append sep_start_def)

lemma not_digit_zero: "\<not> is_digit c \<Longrightarrow> c \<noteq> CHR ''0''"
  by (auto simp: is_digit_def)

lemma json_int_part_Nil_sep:
  "sep_start x \<Longrightarrow> json_int_part x = None"
  by (cases x) (simp_all add: json_int_part_def sep_start_def not_digit_zero)

lemma json_int_part_sep:
  assumes "sep_start x"
  shows "json_int_part (s @ x) = map_option (\<lambda>(ip, r). (ip, r @ x)) (json_int_part s)"
proof (cases s)
  case Nil
  have "json_int_part [] = None" by (simp add: json_int_part_def)
  then show ?thesis using Nil assms by (simp add: json_int_part_Nil_sep)
next
  case (Cons c t)
  have tw: "takeWhile is_digit (t @ x) = takeWhile is_digit t"
    using assms by (rule takeWhile_digit_sep)
  have dw: "dropWhile is_digit (t @ x) = dropWhile is_digit t @ x"
    using assms by (rule dropWhile_digit_sep)
  show ?thesis unfolding Cons by (simp add: json_int_part_def tw dw)
qed


lemma sep_start_not_dot: "sep_start (c # r) \<Longrightarrow> c \<noteq> CHR ''.''"
  by (simp add: sep_start_def)

lemma sep_start_not_exp: "sep_start (c # r) \<Longrightarrow> \<not> is_exp_char c"
  by (simp add: sep_start_def is_exp_char_def)

lemma sep_start_not_sign: "sep_start (c # r) \<Longrightarrow> c \<noteq> CHR ''-'' \<and> c \<noteq> CHR ''+''"
  by (simp add: sep_start_def)

lemma minus_sign_sep:
  assumes "sep_start x"
  shows "minus_sign (s @ x) = (fst (minus_sign s), snd (minus_sign s) @ x)"
proof (cases s)
  case Nil
  then show ?thesis using assms
    by (cases x) (simp_all add: minus_sign_def sep_start_not_sign)
next
  case (Cons c t)
  then show ?thesis by (simp add: minus_sign_def)
qed

lemma plus_minus_sign_sep:
  assumes "sep_start x"
  shows "plus_minus_sign (s @ x) = (fst (plus_minus_sign s), snd (plus_minus_sign s) @ x)"
proof (cases s)
  case Nil
  then show ?thesis using assms
    by (cases x) (simp_all add: plus_minus_sign_def sep_start_not_sign)
next
  case (Cons c t)
  then show ?thesis by (simp add: plus_minus_sign_def)
qed

lemma json_frac_part_sep:
  assumes "sep_start x"
  shows "json_frac_part (s @ x) = (fst (json_frac_part s), snd (json_frac_part s) @ x)"
proof (cases s)
  case Nil
  then show ?thesis using assms
    by (cases x) (simp_all add: json_frac_part_def sep_start_not_dot)
next
  case (Cons c t)
  have tw: "takeWhile is_digit (t @ x) = takeWhile is_digit t"
    using assms by (rule takeWhile_digit_sep)
  have dw: "dropWhile is_digit (t @ x) = dropWhile is_digit t @ x"
    using assms by (rule dropWhile_digit_sep)
  show ?thesis unfolding Cons by (simp add: json_frac_part_def tw dw)
qed

lemma exponent_part_sep:
  assumes "sep_start x"
  shows "exponent_part (s @ x) = (fst (exponent_part s), snd (exponent_part s) @ x)"
proof (cases s)
  case Nil
  then show ?thesis using assms
    by (cases x) (simp_all add: exponent_part_def sep_start_not_exp)
next
  case (Cons c t)
  obtain neg u where pm: "plus_minus_sign t = (neg, u)" by (cases "plus_minus_sign t")
  then have pm': "plus_minus_sign (t @ x) = (neg, u @ x)"
    using assms by (simp add: plus_minus_sign_sep)
  have tw: "takeWhile is_digit (u @ x) = takeWhile is_digit u"
    using assms by (rule takeWhile_digit_sep)
  have dw: "dropWhile is_digit (u @ x) = dropWhile is_digit u @ x"
    using assms by (rule dropWhile_digit_sep)
  show ?thesis unfolding Cons by (simp add: exponent_part_def pm pm' tw dw)
qed

lemma match_number_sep:
  assumes "sep_start x"
  shows "match_number (s @ x) = map_option (\<lambda>(v, r). (v, r @ x)) (match_number s)"
proof -
  obtain neg s1 where ms: "minus_sign s = (neg, s1)" by (cases "minus_sign s")
  then have ms': "minus_sign (s @ x) = (neg, s1 @ x)"
    using assms by (simp add: minus_sign_sep)
  show ?thesis
  proof (cases "json_int_part s1")
    case None
    then have "json_int_part (s1 @ x) = None" using assms by (simp add: json_int_part_sep)
    then show ?thesis using None ms ms' by (simp add: match_number_def)
  next
    case (Some a)
    obtain ip s2 where a: "a = (ip, s2)" by (cases a)
    have ip': "json_int_part (s1 @ x) = Some (ip, s2 @ x)"
      using assms Some a by (simp add: json_int_part_sep)
    obtain fp s3 where fp: "json_frac_part s2 = (fp, s3)" by (cases "json_frac_part s2")
    then have fp': "json_frac_part (s2 @ x) = (fp, s3 @ x)"
      using assms by (simp add: json_frac_part_sep)
    obtain ex s4 where ex: "exponent_part s3 = (ex, s4)" by (cases "exponent_part s3")
    then have ex': "exponent_part (s3 @ x) = (ex, s4 @ x)"
      using assms by (simp add: exponent_part_sep)
    show ?thesis using ms ms' Some a ip' fp fp' ex ex' by (simp add: match_number_def)
  qed
qed

lemma split_commas_not_Nil: "split_commas s \<noteq> []"
  by (induction s) (auto split: list.splits)

lemma join_split_commas: "join_commas (split_commas s) = s"
proof (induction s)
  case Nil
  then show ?case by simp
next
  case (Cons c cs)
  obtain p ps where sp: "split_commas cs = p # ps"
    using split_commas_not_Nil [of cs] by (cases "split_commas cs") auto
  show ?case using Cons sp by (cases ps) auto
qed

lemma strip_json_ws_decomp:
  "\<exists>a b. p = a @ strip_json_ws p @ b \<and> (\<forall>c\<in>set a. is_json_ws c) \<and> (\<forall>c\<in>set b. is_json_ws c)"
proof -
  define a where "a = takeWhile is_json_ws p"
  define q where "q = dropWhile is_json_ws p"
  define b where "b = rev (takeWhile is_json_ws (rev q))"
  have "q = rev (dropWhile is_json_ws (rev q)) @ rev (takeWhile is_json_ws (rev q))"
    by (metis rev_append rev_rev_ident takeWhile_dropWhile_id)
  then have "q = strip_json_ws p @ b"
    unfolding strip_json_ws_def b_def q_def .
  moreover have "p = a @ q" by (simp add: a_def q_def)
  moreover have "\<forall>c\<in>set a. is_json_ws c" by (auto simp: a_def dest: set_takeWhileD)
  moreover have "\<forall>c\<in>set b. is_json_ws c" by (auto simp: b_def dest: set_takeWhileD)
  ultimately show ?thesis by blast
qed

lemma json_numberD:
  assumes "json_number l" shows "\<exists>v. match_number l = Some (v, [])"
proof (cases "match_number l")
  case None
  then show ?thesis using assms by (simp add: json_number_def)
next
  case (Some a)
  obtain v r where "a = (v, r)" by (cases a)
  then show ?thesis using assms Some by (cases r) (simp_all add: json_number_def)
qed

lemma num_start_not_ws: "c = CHR ''-'' \<or> is_digit c \<Longrightarrow> \<not> is_json_ws c"
  by (auto simp: is_digit_def is_json_ws_def)

lemma match_number_hd:
  assumes "match_number l = Some (v, r)"
  shows "\<exists>c t. l = c # t \<and> (c = CHR ''-'' \<or> is_digit c)"
proof -
  obtain neg s1 where ms: "minus_sign l = (neg, s1)" by (cases "minus_sign l")
  with assms obtain ip s2 where ip: "json_int_part s1 = Some (ip, s2)"
    by (auto simp: match_number_def split: option.splits)
  then obtain c t where s1: "s1 = c # t" "is_digit c"
    by (auto simp: json_int_part_def is_digit_def split: list.splits if_splits)
  show ?thesis using ms s1 by (auto simp: minus_sign_def split: list.splits if_splits)
qed

lemma json_number_hd:
  assumes "json_number l"
  shows "\<exists>c t. l = c # t \<and> (c = CHR ''-'' \<or> is_digit c)"
proof -
  from assms obtain v where "match_number l = Some (v, [])"
    using json_numberD by blast
  then show ?thesis by (rule match_number_hd)
qed

lemma skip_ws_pad:
  assumes "\<forall>c\<in>set a. is_json_ws c" "\<not> is_json_ws c"
  shows "skip_ws (a @ c # t) = c # t"
  using assms by (simp add: skip_ws_def dropWhile_append)

lemma sep_start_pad:
  assumes "\<forall>c\<in>set b. is_json_ws c" "c = CHR '','' \<or> c = CHR '']''"
  shows "sep_start (b @ c # t)"
proof (cases b)
  case Nil
  then show ?thesis using assms(2) by (auto simp: sep_start_def is_digit_def)
next
  case (Cons d ds)
  then have "is_json_ws d" using assms(1) by simp
  then show ?thesis using Cons by (auto simp: sep_start_def is_digit_def is_json_ws_def)
qed

lemma scan_once_number:
  assumes "json_number l" "sep_start x"
  shows "scan_once (l @ x) = Inr (number_value l, x)"
proof -
  from assms(1) obtain v where m: "match_number l = Some (v, [])"
    using json_numberD by blast
  then have "match_number (l @ x) = Some (v, x)"
    using assms(2) by (simp add: match_number_sep)
  then show ?thesis using m by (simp add: scan_once_def number_value_def)
qed

lemma json_elements_step:
  assumes p: "json_number (strip_json_ws p)"
  shows "json_elements (skip_ws (p @ CHR '']'' # t)) = Inr ([number_value (strip_json_ws p)], t)"
    and "json_elements (skip_ws (p @ CHR '','' # t)) =
          (case json_elements (skip_ws t) of
             Inl e \<Rightarrow> Inl e
           | Inr (vs, rest') \<Rightarrow> Inr (number_value (strip_json_ws p) # vs, rest'))"
proof -
  obtain a b where d: "p = a @ strip_json_ws p @ b" "\<forall>c\<in>set a. is_json_ws c" "\<forall>c\<in>set b. is_json_ws c"
    using strip_json_ws_decomp by blast
  define l where "l = strip_json_ws p"
  obtain c u where l: "l = c # u" "c = CHR ''-'' \<or> is_digit c"
    using json_number_hd [OF p] by (auto simp: l_def)
  have nws: "\<not> is_json_ws c" using l(2) by (rule num_start_not_ws)
  have pl: "p = a @ l @ b" using d(1) by (simp add: l_def)
  have jl: "json_number l" using p by (simp add: l_def)
  { fix e :: char assume e: "e = CHR '','' \<or> e = CHR '']''"
    have "skip_ws (p @ e # t) = l @ (b @ e # t)"
      using skip_ws_pad [OF d(2) nws, of "u @ b @ e # t"] by (simp add: pl l(1))
    moreover have sep: "sep_start (b @ e # t)" using d(3) e by (rule sep_start_pad)
    moreover have "scan_once (l @ (b @ e # t)) = Inr (number_value l, b @ e # t)"
      using jl sep by (rule scan_once_number)
    moreover have "skip_ws (b @ e # t) = e # t"
      using e by (intro skip_ws_pad [OF d(3)]) (auto simp: is_json_ws_def)
    ultimately have "scan_once (skip_ws (p @ e # t)) = Inr (number_value l, b @ e # t)"
      and "skip_ws (b @ e # t) = e # t" by simp_all
  } note step = this
  show "json_elements (skip_ws (p @ CHR '']'' # t)) = Inr ([number_value (strip_json_ws p)], t)"
    using step [of "CHR '']''"] by (subst json_elements.simps) (simp add: l_def)
  show "json_elements (skip_ws (p @ CHR '','' # t)) =
          (case json_elements (skip_ws t) of
             Inl e \<Rightarrow> Inl e
           | Inr (vs, rest') \<Rightarrow> Inr (number_value (strip_json_ws p) # vs, rest'))"
    using step [of "CHR '',''"] by (subst json_elements.simps) (simp add: l_def)
qed

lemma json_elements_join:
  assumes "ps \<noteq> []" "list_all (\<lambda>p. json_number (strip_json_ws p)) ps"
  shows "json_elements (skip_ws (join_commas ps @ '']'')) =
           Inr (map (\<lambda>p. number_value (strip_json_ws p)) ps, [])"
  using assms
proof (induction ps rule: join_commas.induct)
  case 1
  then show ?case by simp
next
  case (2 p)
  then show ?case by (simp add: json_elements_step(1))
next
  case (3 p q ps)
  then show ?case by (simp add: json_elements_step(2))
qed

lemma skip_ws_first_number:
  assumes "ps \<noteq> []" "list_all (\<lambda>p. json_number (strip_json_ws p)) ps"
  shows "\<exists>c t. skip_ws (join_commas ps @ '']'') = c # t \<and> c \<noteq> CHR '']''"
proof -
  obtain p qs where ps: "ps = p # qs" using assms(1) by (cases ps) auto
  then have p: "json_number (strip_json_ws p)" using assms(2) by simp
  obtain a b where d: "p = a @ strip_json_ws p @ b" "\<forall>c\<in>set a. is_json_ws c"
    using strip_json_ws_decomp by blast
  obtain c u where l: "strip_json_ws p = c # u" "c = CHR ''-'' \<or> is_digit c"
    using json_number_hd [OF p] by auto
  have nws: "\<not> is_json_ws c" using l(2) by (rule num_start_not_ws)
  have nb: "c \<noteq> CHR '']''" using l(2) by (auto simp: is_digit_def)
  obtain w where "join_commas ps @ '']'' = p @ w" using ps by (cases qs) auto
  then have "join_commas ps @ '']'' = a @ c # (u @ b @ w)" using d(1) l(1) by (metis append.assoc append_Cons)
  then have "skip_ws (join_commas ps @ '']'') = c # (u @ b @ w)"
    using skip_ws_pad [OF d(2) nws] by simp
  then show ?thesis using nb by blast
qed

lemma str_to_list_numbers:
  assumes "numbers_text k text"
  shows "str_to_list text = Inr (numbers_of_text text) \<and> length (numbers_of_text text) = k"
proof -
  define ps where "ps = split_commas text"
  have ne: "ps \<noteq> []" by (simp add: ps_def split_commas_not_Nil)
  have all: "list_all (\<lambda>p. json_number (strip_json_ws p)) ps"
    using assms by (simp add: numbers_text_def ps_def)
  have len: "length ps = k" using assms by (simp add: numbers_text_def ps_def)
  have tx: "text = join_commas ps" by (simp add: ps_def join_split_commas)
  obtain c t where first: "skip_ws (join_commas ps @ '']'') = c # t" "c \<noteq> CHR '']''"
    using skip_ws_first_number [OF ne all] by blast
  have el: "json_elements (c # t) = Inr (map (\<lambda>p. number_value (strip_json_ws p)) ps, [])"
    using json_elements_join [OF ne all] first(1) by simp
  have "json_array (text @ '']'') = Inr (map (\<lambda>p. number_value (strip_json_ws p)) ps, [])"
    using first el by (simp add: json_array_def tx)
  then have "str_to_list text = Inr (map (\<lambda>p. number_value (strip_json_ws p)) ps)"
    by (simp add: str_to_list_def json_loads_def skip_ws_def is_json_ws_def)
  then show ?thesis using len by (simp add: numbers_of_text_def ps_def)
qed

lemma digit_not_py_ws: "is_digit c \<Longrightarrow> \<not> is_py_ws c"
  by (auto simp: is_digit_def is_py_ws_def)

lemma num_start_not_py_ws: "c = CHR ''-'' \<or> is_digit c \<Longrightarrow> \<not> is_py_ws c"
  by (auto simp: is_digit_def is_py_ws_def)

lemma py_ws_sep_start: "is_py_ws c \<Longrightarrow> sep_start [c]"
  by (auto simp: is_py_ws_def sep_start_def is_digit_def)

lemma py_strip_id:
  assumes "s = c # t" "\<not> is_py_ws c" "\<not> is_py_ws (last s)"
  shows "py_strip s = s"
proof -
  have front: "dropWhile is_py_ws s = s" using assms(1,2) by simp
  have "s \<noteq> []" using assms(1) by simp
  then have "s = butlast s @ [last s]" by simp
  then obtain b x where bx: "s = b @ [x]" by blast
  then have "\<not> is_py_ws x" using assms(3) by simp
  then have "dropWhile is_py_ws (rev s) = rev s" using bx by simp
  then show ?thesis using front by (simp add: py_strip_def)
qed

lemma match_number_last:
  assumes "match_number l = Some (v, [])"
  shows "\<not> is_py_ws (last l)"
proof
  assume ws: "is_py_ws (last l)"
  obtain c t where "l = c # t" using match_number_hd [OF assms] by blast
  then have l: "l = butlast l @ [last l]" by simp
  have "match_number (butlast l @ [last l]) =
          map_option (\<lambda>(v, r). (v, r @ [last l])) (match_number (butlast l))"
    using ws by (intro match_number_sep py_ws_sep_start)
  then have "match_number l = map_option (\<lambda>(v, r). (v, r @ [last l])) (match_number (butlast l))"
    using l by simp
  then show False using assms by (cases "match_number (butlast l)") (auto split: prod.splits)
qed

lemma frac_exp_end_not_digit:
  assumes "json_frac_part s = (fp, s3)" "exponent_part s3 = (ex, [])" "s = c # r"
  shows "\<not> is_digit c"
proof
  assume d: "is_digit c"
  then have "c \<noteq> CHR ''.''" by (auto simp: is_digit_def)
  then have "s3 = s" using assms(1,3) by (simp add: json_frac_part_def)
  moreover have "\<not> is_exp_char c" using d by (auto simp: is_digit_def is_exp_char_def)
  ultimately show False using assms(2,3) by (simp add: exponent_part_def)
qed

lemma strtod_frac_part_eq:
  assumes "json_frac_part s = (fp, s3)" "exponent_part s3 = (ex, [])"
  shows "strtod_frac_part s = (fp, s3)"
proof (cases s)
  case Nil
  then show ?thesis using assms(1) by (simp add: json_frac_part_def strtod_frac_part_def)
next
  case (Cons c r)
  show ?thesis
  proof (cases "c = CHR ''.'' \<and> takeWhile is_digit r = []")
    case True
    then have "s3 = s" using assms(1) Cons by (simp add: json_frac_part_def)
    moreover have "\<not> is_exp_char c" using True by (simp add: is_exp_char_def)
    ultimately have False using assms(2) Cons by (simp add: exponent_part_def)
    then show ?thesis ..
  next
    case False
    then show ?thesis using assms(1) Cons
      by (auto simp: json_frac_part_def strtod_frac_part_def split: if_splits)
  qed
qed

lemma strtod_json_number:
  assumes "match_number l = Some (v, [])"
  shows "strtod l = Some (v, [])"
proof -
  obtain neg s1 where ms: "minus_sign l = (neg, s1)" by (cases "minus_sign l")
  with assms obtain ip s2 where ip: "json_int_part s1 = Some (ip, s2)"
    by (auto simp: match_number_def split: option.splits)
  obtain fp s3 where fp: "json_frac_part s2 = (fp, s3)" by (cases "json_frac_part s2")
  obtain ex s4 where ex: "exponent_part s3 = (ex, s4)" by (cases "exponent_part s3")
  from assms ms ip fp ex have s4: "s4 = []" and v: "v = decimal_value neg ip fp ex"
    by (simp_all add: match_number_def)
  obtain c t where s1: "s1 = c # t" "is_digit c"
    using ip by (auto simp: json_int_part_def is_digit_def split: list.splits if_splits)
  have cs: "c \<noteq> CHR ''-''" "c \<noteq> CHR ''+''" using s1(2) by (auto simp: is_digit_def)
  have pm: "plus_minus_sign l = (neg, s1)"
    using ms s1 cs by (auto simp: minus_sign_def plus_minus_sign_def split: list.splits if_splits)
  have nd: "s2 = [] \<or> \<not> is_digit (hd s2)"
    using frac_exp_end_not_digit [OF fp ex [unfolded s4]] by (cases s2) auto
  have tk: "takeWhile is_digit s1 = ip \<and> dropWhile is_digit s1 = s2"
  proof (cases "c = CHR ''0''")
    case True
    then have "ip = [c]" "s2 = t" using ip s1 by (simp_all add: json_int_part_def)
    then show ?thesis using nd s1 by (cases t) auto
  next
    case False
    then show ?thesis using ip s1 by (simp add: json_int_part_def)
  qed
  have ipne: "ip \<noteq> []" using tk s1 by auto
  have sf: "strtod_frac_part s2 = (fp, s3)"
    using fp ex [unfolded s4] by (rule strtod_frac_part_eq)
  show ?thesis using pm tk ipne sf ex s4 v by (simp add: strtod_def)
qed

lemma py_float_json_number:
  assumes "json_number l"
  shows "py_float l = Inr (number_value l)"
proof -
  obtain v where m: "match_number l = Some (v, [])" using json_numberD [OF assms] by blast
  obtain c t where l: "l = c # t" "c = CHR ''-'' \<or> is_digit c"
    using match_number_hd [OF m] by blast
  have "py_strip l = l"
    using l(1) num_start_not_py_ws [OF l(2)] match_number_last [OF m] by (rule py_strip_id)
  moreover have "strtod l = Some (v, [])" using m by (rule strtod_json_number)
  ultimately show ?thesis using m by (simp add: py_float_def number_value_def)
qed

lemma py_int_integer_text:
  assumes "integer_text l"
  shows "py_int l = Inr (integer_value l)"
proof -
  obtain neg t where ms: "minus_sign l = (neg, t)" by (cases "minus_sign l")
  with assms have t: "t \<noteq> []" "list_all is_digit t" by (simp_all add: integer_text_def)
  then obtain c u where tc: "t = c # u" "is_digit c" by (cases t) auto
  have cs: "c \<noteq> CHR ''-''" "c \<noteq> CHR ''+''" using tc(2) by (auto simp: is_digit_def)
  have pm: "plus_minus_sign l = (neg, t)"
    using ms tc cs by (auto simp: minus_sign_def plus_minus_sign_def split: list.splits if_splits)
  obtain d w where l: "l = d # w" "d = CHR ''-'' \<or> is_digit d"
    using ms tc by (auto simp: minus_sign_def split: list.splits if_splits)
  have "last l = last t" using ms tc by (auto simp: minus_sign_def split: list.splits if_splits)
  moreover have "last t \<in> set t" using t(1) by (rule last_in_set)
  ultimately have "is_digit (last l)" using t(2) by (simp add: list_all_iff)
  then have "\<not> is_py_ws (last l)" by (rule digit_not_py_ws)
  with l(1) num_start_not_py_ws [OF l(2)] have "py_strip l = l" by (rule py_strip_id)
  then show ?thesis using pm t ms by (simp add: py_int_def integer_value_def)
qed

section \<open>Properties of the equipment normalisers\<close>

lemma dict_literal_keys: "dict_literal es = Inr d \<Longrightarrow> map fst d = map fst es"
proof (induction es arbitrary: d)
  case Nil
  then show ?case by simp
next
  case (Cons e es)
  obtain k r where e: "e = (k, r)" by (cases e)
  from Cons.prems e obtain v d' where "r = Inr v" "dict_literal es = Inr d'" "d = (k, v) # d'"
    by (auto split: sum.splits)
  then show ?case using Cons.IH e by simp
qed


lemma dict_get_present: "k \<in> fst ` set d \<Longrightarrow> \<exists>v. dict_get d k = Inr v"
proof -
  assume "k \<in> fst ` set d"
  then have "map_of d k \<noteq> None" by (simp add: map_of_eq_None_iff)
  then show ?thesis by (auto simp: dict_get_def)
qed






lemma bind_result_eq_Inr:
  "bind_result m f = Inr r \<longleftrightarrow> (\<exists>v. m = Inr v \<and> f v = Inr r)"
  by (cases m) simp_all


lemma check_module_example:
  "check_module example_module_form =
     Inr \<lparr> modules_database = None, modules_name = PyNone,
           module_params =
             [(''T_NOCT'', PyNum 45), (''Technology'', PyStr ''monosi''), (''N_s'', PyNum 72),
              (''I_sc_ref'', PyNum 9), (''V_oc_ref'', PyNum 46), (''I_mp_ref'', PyNum 8),
              (''V_mp_ref'', PyNum 38), (''alpha_sc'', PyNum (5 / 100)),
              (''beta_oc'', PyNum (- 3 / 10)), (''gamma_r'', PyNum (- 4 / 10)),
              (''STC'', PyNum 330)],
           module_bifacial = False, module_bifaciality = 0, module_row_height = 0,
           module_row_width = 0 \<rparr>"
  by (simp add: check_module_def select_module_def module_from_manual_def dict_get_def
      technology_value_def module_tec_def example_module_form_def)





lemma check_module_manual:
  assumes "module_btn f = Some ''Manual''"
  shows "\<exists>r. check_module f = Inr r \<and>
           map_of (module_params r) ''Technology'' =
             Some (case w_Type f of None \<Rightarrow> PyNone
                   | Some t \<Rightarrow> (case module_tec t of None \<Rightarrow> PyNone | Some tag \<Rightarrow> PyStr tag))"
proof (cases "dropdown_bifacial f")
  case True
  then show ?thesis using assms
    by (simp add: check_module_def select_module_def module_from_manual_def dict_get_def
        technology_value_def Let_def split: option.splits)
next
  case False
  then show ?thesis using assms
    by (simp add: check_module_def select_module_def module_from_manual_def dict_get_def
        technology_value_def Let_def split: option.splits)
qed

text \<open>
  Claim C2. The technology normalisation is a function from strings to an optional tag
  with no exceptional outcome. Every spelling of the synonym table is sent to the tag of
  its row; every string outside the table is sent to \<open>None\<close>; the table has exactly
  seven tags, all different, and no other tag is ever returned. Inside \<open>check_module\<close>
  (manual entry) the normalisation never makes the function raise.
\<close>

theorem module_tec_table:
  "(\<forall>(tag, syns) \<in> set technology_synonyms. \<forall>t \<in> set syns. module_tec t = Some tag)
   \<and> (\<forall>t. t \<notin> (\<Union>(tag, syns) \<in> set technology_synonyms. set syns) \<longrightarrow> module_tec t = None)
   \<and> length technology_synonyms = 7 \<and> distinct (map fst technology_synonyms)
   \<and> (\<forall>t. module_tec t = None \<or> module_tec t \<in> Some ` fst ` set technology_synonyms)
   \<and> (\<forall>f. module_btn f = Some ''Manual'' \<longrightarrow>
         (\<exists>r. check_module f = Inr r \<and>
              map_of (module_params r) ''Technology'' =
                Some (case w_Type f of None \<Rightarrow> PyNone
                      | Some t \<Rightarrow> (case module_tec t of None \<Rightarrow> PyNone | Some tag \<Rightarrow> PyStr tag))))"
proof (intro conjI)
  show "\<forall>(tag, syns) \<in> set technology_synonyms. \<forall>t \<in> set syns. module_tec t = Some tag"
    by (simp add: technology_synonyms_def module_tec_def)
  show "\<forall>t. t \<notin> (\<Union>(tag, syns) \<in> set technology_synonyms. set syns) \<longrightarrow> module_tec t = None"
    by (simp add: technology_synonyms_def module_tec_def)
  show "length technology_synonyms = 7" by (simp add: technology_synonyms_def)
  show "distinct (map fst technology_synonyms)" by (simp add: technology_synonyms_def)
  show "\<forall>t. module_tec t = None \<or> module_tec t \<in> Some ` fst ` set technology_synonyms"
    by (simp add: technology_synonyms_def module_tec_def)
  show "\<forall>f. module_btn f = Some ''Manual'' \<longrightarrow>
         (\<exists>r. check_module f = Inr r \<and>
              map_of (module_params r) ''Technology'' =
                Some (case w_Type f of None \<Rightarrow> PyNone
                      | Some t \<Rightarrow> (case module_tec t of None \<Rightarrow> PyNone | Some tag \<Rightarrow> PyStr tag)))"
    by (simp add: check_module_manual)
qed

text \<open>
  The statement of C2 at two spellings of the table and one string outside it.
\<close>

theorem module_tec_table_witness:
  "module_tec ''Mono-c-Si'' = Some ''monosi'' \<and> module_tec ''HIT-Si'' = Some ''asi''
   \<and> module_tec ''perovskite'' = None"
  using module_tec_table by (simp add: technology_synonyms_def)

lemma dict_literal_lookups:
  "set ks \<subseteq> fst ` set raw \<Longrightarrow> \<exists>d. dict_literal (map (\<lambda>k. (k, dict_get raw k)) ks) = Inr d"
proof (induction ks)
  case Nil
  then show ?case by simp
next
  case (Cons k ks)
  then obtain d where d: "dict_literal (map (\<lambda>k. (k, dict_get raw k)) ks) = Inr d" by auto
  from Cons.prems have "k \<in> fst ` set raw" by simp
  then obtain v where "dict_get raw k = Inr v" using dict_get_present by blast
  then show ?case using d by simp
qed

lemma sandia_literal_keys:
  "dict_literal [(''Paco'', a), (''Pdco'', b), (''Vdco'', c), (''Pso'', d), (''C0'', e),
                 (''C1'', g), (''C2'', h), (''C3'', i), (''Pnt'', j)] = Inr x
   \<Longrightarrow> map fst x = sandia_inverter_fields"
  by (drule dict_literal_keys) (simp add: sandia_inverter_fields_def)

lemma pvwatts_literal_keys:
  "dict_literal [(''Pdco'', a), (''eta_inv_nom'', b)] = Inr x
   \<Longrightarrow> map fst x = pvwatts_inverter_fields"
  by (drule dict_literal_keys) (simp add: pvwatts_inverter_fields_def)

lemma check_inverter_schema:
  assumes "check_inverter f = Inr r"
  shows "(inverter_ac_model r = ''sandia'' \<and> map fst (inverter_params r) = sandia_inverter_fields)
       \<or> (inverter_ac_model r = ''pvwatts'' \<and> map fst (inverter_params r) = pvwatts_inverter_fields)"
proof -
  consider (repo) "inverter_btn f = Some ''Repositorio''"
    | (pvsyst) "inverter_btn f = Some ''PVsyst''"
    | (manual) "inverter_btn f = Some ''Manual''"
    | (none) "inverter_btn f \<noteq> Some ''Repositorio''" "inverter_btn f \<noteq> Some ''PVsyst''"
        "inverter_btn f \<noteq> Some ''Manual''"
    by blast
  then show ?thesis
  proof cases
    case repo
    with assms show ?thesis
      by (auto simp: check_inverter_def bind_result_eq_Inr simp del: dict_literal.simps
          dest: sandia_literal_keys split: option.splits)
  next
    case pvsyst
    with assms show ?thesis
      by (auto simp: check_inverter_def bind_result_eq_Inr simp del: dict_literal.simps
          dest: pvwatts_literal_keys split: option.splits)
  next
    case manual
    with assms show ?thesis
      by (auto simp: check_inverter_def bind_result_eq_Inr simp del: dict_literal.simps
          dest: sandia_literal_keys pvwatts_literal_keys split: if_splits)
  next
    case none
    with assms show ?thesis by (simp add: check_inverter_def)
  qed
qed

lemma check_inverter_repository:
  assumes "inverter_btn f = Some ''Repositorio''" "inv_drop f = Some nm"
    "retrieve_sam_inverter f (dropdown_invrepo f) nm = Some raw"
    "set sandia_inverter_fields \<subseteq> fst ` set raw"
  shows "\<exists>r. check_inverter f = Inr r \<and> inverter_ac_model r = ''sandia''"
proof -
  obtain d where "dict_literal (map (\<lambda>k. (k, dict_get raw k)) sandia_inverter_fields) = Inr d"
    using dict_literal_lookups [OF assms(4)] by blast
  then show ?thesis using assms(1-3)
    by (simp add: check_inverter_def sandia_inverter_fields_def del: dict_literal.simps)
qed

lemma check_inverter_pvsyst:
  assumes "inverter_btn f = Some ''PVsyst''" "map_of (btn_files f) ''inv'' = Some raw"
    "set pvwatts_inverter_fields \<subseteq> fst ` set raw"
  shows "\<exists>r. check_inverter f = Inr r \<and> inverter_ac_model r = ''pvwatts''"
proof -
  obtain d where "dict_literal (map (\<lambda>k. (k, dict_get raw k)) pvwatts_inverter_fields) = Inr d"
    using dict_literal_lookups [OF assms(3)] by blast
  then show ?thesis using assms(1,2)
    by (simp add: check_inverter_def pvwatts_inverter_fields_def del: dict_literal.simps)
qed

lemma panel_value_row:
  "1 \<le> k \<Longrightarrow> k \<le> length rows \<Longrightarrow> panel_value (Some rows) k = Inr (PyNum (rows ! (k - 1)))"
  by (simp add: panel_value_def)

lemma check_inverter_manual_snl:
  assumes "inverter_btn f = Some ''Manual''" "dropdown_manual f = Some ''SNL PVlib''"
    "inv_conf f = Some rows" "9 \<le> length rows"
  shows "\<exists>r. check_inverter f = Inr r \<and> inverter_ac_model r = ''sandia''"
  using assms by (simp add: check_inverter_def panel_value_row)

lemma check_inverter_manual_pvwatts:
  assumes "inverter_btn f = Some ''Manual''" "dropdown_manual f = Some ''NREL PVWatts''"
    "inv_conf f = Some rows" "2 \<le> length rows"
  shows "\<exists>r. check_inverter f = Inr r \<and> inverter_ac_model r = ''pvwatts''"
  using assms by (simp add: check_inverter_def panel_value_row)

lemma check_inverter_manual_absent:
  assumes "inverter_btn f = Some ''Manual''"
    "dropdown_manual f = Some ''SNL PVlib'' \<or> dropdown_manual f = Some ''NREL PVWatts''"
    "inv_conf f = None"
  shows "check_inverter f = Inl IndexError"
  using assms by (auto simp: check_inverter_def panel_value_def)

text \<open>
  Claim C4, as stated, fails: with the manual source selected and the format
  \<open>SNL PVlib\<close> shown, but the panel of number fields absent (the source was switched
  to \<open>PVsyst\<close> and back), \<open>check_inverter\<close> raises \<open>IndexError\<close> and returns
  nothing.
\<close>

theorem check_inverter_manual_no_panel:
  "inverter_btn example_inverter_form_retoggled = Some ''Manual''
   \<and> dropdown_manual example_inverter_form_retoggled = Some ''SNL PVlib''
   \<and> check_inverter example_inverter_form_retoggled = Inl IndexError"
  by (simp add: example_inverter_form_retoggled_def example_inverter_form_def
      check_inverter_def panel_value_def)

text \<open>
  Claim C4, amended. Whatever \<open>check_inverter\<close> returns is tagged \<open>sandia\<close> and has
  the nine coefficients \<open>Paco, Pdco, Vdco, Pso, C0, C1, C2, C3, Pnt\<close>, or is tagged
  \<open>pvwatts\<close> and has the two fields \<open>Pdco, eta_inv_nom\<close>. Each of the four source
  selections returns such a result when what it reads is there: the repository, when an
  inverter is selected whose record holds the nine coefficients, and manual SNL entry,
  when the panel with its nine number fields is present, give \<open>sandia\<close>; a loaded
  PVsyst file that holds the two fields, and manual PVWatts entry, when the panel with
  its two number fields is present, give \<open>pvwatts\<close>. A manual selection whose panel
  is absent raises \<open>IndexError\<close>.
\<close>

theorem check_inverter_schemas:
  "(\<forall>r. check_inverter f = Inr r \<longrightarrow>
       (inverter_ac_model r = ''sandia'' \<and> map fst (inverter_params r) = sandia_inverter_fields)
     \<or> (inverter_ac_model r = ''pvwatts'' \<and> map fst (inverter_params r) = pvwatts_inverter_fields))
   \<and> length sandia_inverter_fields = 9 \<and> length pvwatts_inverter_fields = 2
   \<and> (inverter_btn f = Some ''Repositorio'' \<and> inv_drop f = Some nm
        \<and> retrieve_sam_inverter f (dropdown_invrepo f) nm = Some raw
        \<and> set sandia_inverter_fields \<subseteq> fst ` set raw
      \<longrightarrow> (\<exists>r. check_inverter f = Inr r \<and> inverter_ac_model r = ''sandia''))
   \<and> (inverter_btn f = Some ''PVsyst'' \<and> map_of (btn_files f) ''inv'' = Some raw
        \<and> set pvwatts_inverter_fields \<subseteq> fst ` set raw
      \<longrightarrow> (\<exists>r. check_inverter f = Inr r \<and> inverter_ac_model r = ''pvwatts''))
   \<and> (inverter_btn f = Some ''Manual'' \<and> dropdown_manual f = Some ''SNL PVlib''
        \<and> inv_conf f = Some rows \<and> 9 \<le> length rows
      \<longrightarrow> (\<exists>r. check_inverter f = Inr r \<and> inverter_ac_model r = ''sandia''))
   \<and> (inverter_btn f = Some ''Manual'' \<and> dropdown_manual f = Some ''NREL PVWatts''
        \<and> inv_conf f = Some rows \<and> 2 \<le> length rows
      \<longrightarrow> (\<exists>r. check_inverter f = Inr r \<and> inverter_ac_model r = ''pvwatts''))
   \<and> (inverter_btn f = Some ''Manual''
        \<and> (dropdown_manual f = Some ''SNL PVlib'' \<or> dropdown_manual f = Some ''NREL PVWatts'')
        \<and> inv_conf f = None
      \<longrightarrow> check_inverter f = Inl IndexError)"
proof (intro conjI allI impI)
  fix r assume "check_inverter f = Inr r"
  then show "(inverter_ac_model r = ''sandia'' \<and> map fst (inverter_params r) = sandia_inverter_fields)
     \<or> (inverter_ac_model r = ''pvwatts'' \<and> map fst (inverter_params r) = pvwatts_inverter_fields)"
    by (rule check_inverter_schema)
next
  show "length sandia_inverter_fields = 9" by (simp add: sandia_inverter_fields_def)
next
  show "length pvwatts_inverter_fields = 2" by (simp add: pvwatts_inverter_fields_def)
next
  assume "inverter_btn f = Some ''Repositorio'' \<and> inv_drop f = Some nm
        \<and> retrieve_sam_inverter f (dropdown_invrepo f) nm = Some raw
        \<and> set sandia_inverter_fields \<subseteq> fst ` set raw"
  then show "\<exists>r. check_inverter f = Inr r \<and> inverter_ac_model r = ''sandia''"
    using check_inverter_repository by blast
next
  assume "inverter_btn f = Some ''PVsyst'' \<and> map_of (btn_files f) ''inv'' = Some raw
        \<and> set pvwatts_inverter_fields \<subseteq> fst ` set raw"
  then show "\<exists>r. check_inverter f = Inr r \<and> inverter_ac_model r = ''pvwatts''"
    using check_inverter_pvsyst by blast
next
  assume "inverter_btn f = Some ''Manual'' \<and> dropdown_manual f = Some ''SNL PVlib''
        \<and> inv_conf f = Some rows \<and> 9 \<le> length rows"
  then show "\<exists>r. check_inverter f = Inr r \<and> inverter_ac_model r = ''sandia''"
    using check_inverter_manual_snl by blast
next
  assume "inverter_btn f = Some ''Manual'' \<and> dropdown_manual f = Some ''NREL PVWatts''
        \<and> inv_conf f = Some rows \<and> 2 \<le> length rows"
  then show "\<exists>r. check_inverter f = Inr r \<and> inverter_ac_model r = ''pvwatts''"
    using check_inverter_manual_pvwatts by blast
next
  assume "inverter_btn f = Some ''Manual''
        \<and> (dropdown_manual f = Some ''SNL PVlib'' \<or> dropdown_manual f = Some ''NREL PVWatts'')
        \<and> inv_conf f = None"
  then show "check_inverter f = Inl IndexError"
    using check_inverter_manual_absent by blast
qed

text \<open>
  The amended statement of C4 at a repository record, a loaded PVsyst file, a manual
  entry in each format, and a manual selection without its panel.
\<close>

theorem check_inverter_schemas_witness:
  "(\<exists>r. check_inverter example_repository_inverter_form = Inr r
        \<and> inverter_ac_model r = ''sandia''
        \<and> map fst (inverter_params r) = sandia_inverter_fields)
   \<and> (\<exists>r. check_inverter example_pvsyst_inverter_form = Inr r
        \<and> inverter_ac_model r = ''pvwatts''
        \<and> map fst (inverter_params r) = pvwatts_inverter_fields)
   \<and> (\<exists>r. check_inverter example_inverter_form = Inr r
        \<and> inverter_ac_model r = ''sandia''
        \<and> map fst (inverter_params r) = sandia_inverter_fields)
   \<and> (\<exists>r. check_inverter example_pvwatts_inverter_form = Inr r
        \<and> inverter_ac_model r = ''pvwatts''
        \<and> map fst (inverter_params r) = pvwatts_inverter_fields)
   \<and> check_inverter (example_pvwatts_inverter_form \<lparr> inv_conf := None \<rparr>) = Inl IndexError"
proof -
  have repo: "inverter_btn example_repository_inverter_form = Some ''Repositorio''
      \<and> inv_drop example_repository_inverter_form = Some (Some ''Example_Inverter'')
      \<and> retrieve_sam_inverter example_repository_inverter_form
            (dropdown_invrepo example_repository_inverter_form) (Some ''Example_Inverter'')
          = Some example_cec_inverter
      \<and> set sandia_inverter_fields \<subseteq> fst ` set example_cec_inverter"
    by (simp add: example_repository_inverter_form_def example_inverter_form_def
        example_cec_inverter_def sandia_inverter_fields_def)
  have pvs: "inverter_btn example_pvsyst_inverter_form = Some ''PVsyst''
      \<and> map_of (btn_files example_pvsyst_inverter_form) ''inv''
          = Some [(''Paco'', PyNum 250000), (''Pdco'', PyNum 259589),
                  (''eta_inv_nom'', PyNum 98), (''Name'', PyStr ''Example'')]
      \<and> set pvwatts_inverter_fields
          \<subseteq> fst ` set [(''Paco'', PyNum 250000), (''Pdco'', PyNum 259589),
                         (''eta_inv_nom'', PyNum 98), (''Name'', PyStr ''Example'')]"
    by (simp add: example_pvsyst_inverter_form_def example_inverter_form_def
        pvwatts_inverter_fields_def)
  have man: "inverter_btn example_inverter_form = Some ''Manual''
      \<and> dropdown_manual example_inverter_form = Some ''SNL PVlib''
      \<and> inv_conf example_inverter_form = Some [250000, 259589, 840, 1659, 0, 0, 0, 0, 75]
      \<and> 9 \<le> length [250000, 259589, 840, 1659, 0, 0, 0, 0, 75 :: real]"
    by (simp add: example_inverter_form_def)
  have pvw: "inverter_btn example_pvwatts_inverter_form = Some ''Manual''
      \<and> dropdown_manual example_pvwatts_inverter_form = Some ''NREL PVWatts''
      \<and> inv_conf example_pvwatts_inverter_form = Some [259589, 98 / 100]
      \<and> 2 \<le> length [259589, 98 / 100 :: real]"
    by (simp add: example_pvwatts_inverter_form_def example_inverter_form_def)
  have abs: "inverter_btn (example_pvwatts_inverter_form \<lparr> inv_conf := None \<rparr>) = Some ''Manual''
      \<and> (dropdown_manual (example_pvwatts_inverter_form \<lparr> inv_conf := None \<rparr>) = Some ''SNL PVlib''
        \<or> dropdown_manual (example_pvwatts_inverter_form \<lparr> inv_conf := None \<rparr>)
            = Some ''NREL PVWatts'')
      \<and> inv_conf (example_pvwatts_inverter_form \<lparr> inv_conf := None \<rparr>) = None"
    by (simp add: example_pvwatts_inverter_form_def example_inverter_form_def)
  note a = check_inverter_schemas [of example_repository_inverter_form
      "Some ''Example_Inverter''" example_cec_inverter "[]"]
  note b = check_inverter_schemas [of example_pvsyst_inverter_form None
      "[(''Paco'', PyNum 250000), (''Pdco'', PyNum 259589),
        (''eta_inv_nom'', PyNum 98), (''Name'', PyStr ''Example'')]" "[]"]
  note c = check_inverter_schemas [of example_inverter_form None "[]"
      "[250000, 259589, 840, 1659, 0, 0, 0, 0, 75]"]
  note d = check_inverter_schemas [of example_pvwatts_inverter_form None "[]"
      "[259589, 98 / 100]"]
  note e = check_inverter_schemas [of "example_pvwatts_inverter_form \<lparr> inv_conf := None \<rparr>"
      None "[]" "[]"]
  have A: "\<exists>r. check_inverter example_repository_inverter_form = Inr r
        \<and> inverter_ac_model r = ''sandia''
        \<and> map fst (inverter_params r) = sandia_inverter_fields"
    using a repo by fastforce
  have B: "\<exists>r. check_inverter example_pvsyst_inverter_form = Inr r
        \<and> inverter_ac_model r = ''pvwatts''
        \<and> map fst (inverter_params r) = pvwatts_inverter_fields"
    using b pvs by fastforce
  have C: "\<exists>r. check_inverter example_inverter_form = Inr r
        \<and> inverter_ac_model r = ''sandia''
        \<and> map fst (inverter_params r) = sandia_inverter_fields"
    using c man by fastforce
  have D: "\<exists>r. check_inverter example_pvwatts_inverter_form = Inr r
        \<and> inverter_ac_model r = ''pvwatts''
        \<and> map fst (inverter_params r) = pvwatts_inverter_fields"
    using d pvw by fastforce
  have E: "check_inverter (example_pvwatts_inverter_form \<lparr> inv_conf := None \<rparr>) = Inl IndexError"
    using e abs by blast
  show ?thesis using A B C D E by blast
qed

section \<open>Properties of the mount and wiring assemblers\<close>

lemmas number_text_defs =
  json_number_def number_value_def numbers_text_def numbers_of_text_def strip_json_ws_def
  integer_text_def integer_value_def match_number_def minus_sign_def json_int_part_def
  json_frac_part_def exponent_part_def plus_minus_sign_def decimal_value_def digits_val_def
  digit_val_def is_digit_def is_exp_char_def is_json_ws_def

lemma per_subarray_floats_low: "k < 1 \<Longrightarrow> per_subarray_floats k t = Inr None"
  by (simp add: per_subarray_floats_def)

lemma per_subarray_ints_low: "k < 1 \<Longrightarrow> per_subarray_ints k t = Inr None"
  by (simp add: per_subarray_ints_def)

lemma check_mount_low: "k < 1 \<Longrightarrow> check_mount f k = Inl UnboundLocalError"
  by (simp add: check_mount_def per_subarray_floats_low bound_def)

lemma check_econfig_low: "k < 1 \<Longrightarrow> check_econfig e k = Inl UnboundLocalError"
  by (simp add: check_econfig_def per_subarray_ints_low bound_def)

lemma per_subarray_floats_scalar:
  "json_number t \<Longrightarrow> per_subarray_floats 1 t = Inr (Some [number_value t])"
  by (simp add: per_subarray_floats_def py_float_json_number)

lemma per_subarray_floats_list:
  assumes "1 < k" "numbers_text k t"
  shows "per_subarray_floats (int k) t = Inr (Some (numbers_of_text t))"
  using assms str_to_list_numbers [OF assms(2)] by (simp add: per_subarray_floats_def)

lemma per_subarray_ints_scalar:
  "integer_text t \<Longrightarrow> per_subarray_ints 1 t = Inr (Some [of_int (integer_value t)])"
  by (simp add: per_subarray_ints_def py_int_integer_text)

lemma per_subarray_ints_list:
  assumes "1 < k" "numbers_text k t"
  shows "per_subarray_ints (int k) t = Inr (Some (numbers_of_text t))"
  using assms str_to_list_numbers [OF assms(2)] by (simp add: per_subarray_ints_def)

lemma length_numbers_of_text: "numbers_text k t \<Longrightarrow> length (numbers_of_text t) = k"
  by (simp add: numbers_text_def numbers_of_text_def)

lemma racking_selected_type:
  "racking_selected f \<Longrightarrow> \<exists>mt. module_type_of (w_Racking f) = Some mt"
  by (auto simp: racking_selected_def module_type_of_def)

lemma check_mount_fixed:
  assumes "tracker_btn f = Some ''Sin Seguidor''" "racking_selected f"
    "per_subarray_floats k (w_Tilt f) = Inr (Some ts)"
    "per_subarray_floats k (w_Azimuth f) = Inr (Some zs)"
  shows "\<exists>m. check_mount f k = Inr m \<and> mount_surface_tilt m = Some ts
           \<and> mount_surface_azimuth m = Some zs"
proof -
  obtain mt where "module_type_of (w_Racking f) = Some mt"
    using racking_selected_type [OF assms(2)] by blast
  then show ?thesis using assms(1,3,4) by (simp add: check_mount_def bound_def)
qed

lemma check_mount_tracker:
  assumes "tracker_btn f = Some ''Seguidor 1-Eje''" "racking_selected f"
    "per_subarray_floats k (w_AxisTilt f) = Inr (Some ts)"
    "per_subarray_floats k (w_AxisAzimuth f) = Inr (Some zs)"
    "per_subarray_floats k (w_MaxAngle f) = Inr (Some xs)"
  shows "\<exists>m. check_mount f k = Inr m \<and> mount_axis_tilt m = Some ts
           \<and> mount_axis_azimuth m = Some zs \<and> mount_max_angle m = Some xs"
proof -
  obtain mt where "module_type_of (w_Racking f) = Some mt"
    using racking_selected_type [OF assms(2)] by blast
  then show ?thesis using assms(1,3,4,5) by (simp add: check_mount_def bound_def)
qed

lemma check_econfig_lists:
  assumes "per_subarray_ints k (w_mps e) = Inr (Some ms)"
    "per_subarray_ints k (w_spi e) = Inr (Some ss)"
  shows "\<exists>c. check_econfig e k = Inr c \<and> econfig_modules_per_string c = ms
           \<and> econfig_strings_per_inverter c = ss"
  using assms by (simp add: check_econfig_def bound_def)

lemma py_int_decimal: "py_int ''18.0'' = Inl ValueError"
  by (simp add: py_int_def py_strip_def is_py_ws_def py_exotic_def plus_minus_sign_def
      is_digit_def)

lemma check_econfig_decimal: "check_econfig example_econfig_decimal 1 = Inl ValueError"
  by (simp add: check_econfig_def per_subarray_ints_def py_int_decimal
      example_econfig_decimal_def example_econfig_one_def)

lemma check_mount_no_racking:
  "check_mount example_mount_no_racking 1 = Inl UnboundLocalError"
  by (simp add: check_mount_def per_subarray_floats_def py_float_def py_strip_def is_py_ws_def
      strtod_def strtod_frac_part_def bound_def module_type_of_def example_fixed_mount_def
      example_mount_no_racking_def number_text_defs)

text \<open>
  Claim C5, as stated, fails: with one subarray the bare scalar \<open>18.0\<close> in the modules
  per string field gives no list, \<open>int\<close> raises \<open>ValueError\<close>; and the bare scalars
  \<open>10\<close> and \<open>180\<close> in the tilt and azimuth fields give no list while no racking
  model is chosen, \<open>check_mount\<close> raises \<open>UnboundLocalError\<close>.
\<close>

theorem per_subarray_scalar_no_list:
  "json_number (w_mps example_econfig_decimal)
   \<and> check_econfig example_econfig_decimal 1 = Inl ValueError
   \<and> json_number (w_Tilt example_mount_no_racking)
   \<and> json_number (w_Azimuth example_mount_no_racking)
   \<and> check_mount example_mount_no_racking 1 = Inl UnboundLocalError"
proof -
  have a: "json_number (w_mps example_econfig_decimal)"
    by (simp add: example_econfig_decimal_def example_econfig_one_def number_text_defs)
  have b: "json_number (w_Tilt example_mount_no_racking)"
    by (simp add: example_mount_no_racking_def example_fixed_mount_def number_text_defs)
  have c: "json_number (w_Azimuth example_mount_no_racking)"
    by (simp add: example_mount_no_racking_def example_fixed_mount_def number_text_defs)
  show ?thesis using a b c check_econfig_decimal check_mount_no_racking by blast
qed

text \<open>
  Claim C5, amended. With one subarray, a bare scalar in each text field of the selected
  mount mode gives lists of length one (tilt and azimuth, or axis tilt, axis azimuth and
  maximum rotation), and a bare integer in each wiring field gives lists of length one
  (modules per string, strings per inverter). With \<open>k > 1\<close> subarrays, fields that
  each hold \<open>k\<close> comma-separated numbers give lists of length \<open>k\<close>. A number is a
  numeral the JSON decoder reads (\<open>json_number\<close>), blanks around it allowed in a
  delimited field; for the mount fields a racking model must be selected.
\<close>

theorem per_subarray_list_lengths:
  "(tracker_btn f = Some ''Sin Seguidor'' \<and> racking_selected f
      \<and> json_number (w_Tilt f) \<and> json_number (w_Azimuth f)
    \<longrightarrow> (\<exists>m ts zs. check_mount f 1 = Inr m
           \<and> mount_surface_tilt m = Some ts \<and> length ts = 1
           \<and> mount_surface_azimuth m = Some zs \<and> length zs = 1))
   \<and> (tracker_btn f = Some ''Seguidor 1-Eje'' \<and> racking_selected f
      \<and> json_number (w_AxisTilt f) \<and> json_number (w_AxisAzimuth f) \<and> json_number (w_MaxAngle f)
    \<longrightarrow> (\<exists>m ts zs xs. check_mount f 1 = Inr m
           \<and> mount_axis_tilt m = Some ts \<and> length ts = 1
           \<and> mount_axis_azimuth m = Some zs \<and> length zs = 1
           \<and> mount_max_angle m = Some xs \<and> length xs = 1))
   \<and> (integer_text (w_mps e) \<and> integer_text (w_spi e)
    \<longrightarrow> (\<exists>c. check_econfig e 1 = Inr c
           \<and> length (econfig_modules_per_string c) = 1
           \<and> length (econfig_strings_per_inverter c) = 1))
   \<and> (1 < k \<and> tracker_btn f = Some ''Sin Seguidor'' \<and> racking_selected f
      \<and> numbers_text k (w_Tilt f) \<and> numbers_text k (w_Azimuth f)
    \<longrightarrow> (\<exists>m ts zs. check_mount f (int k) = Inr m
           \<and> mount_surface_tilt m = Some ts \<and> length ts = k
           \<and> mount_surface_azimuth m = Some zs \<and> length zs = k))
   \<and> (1 < k \<and> tracker_btn f = Some ''Seguidor 1-Eje'' \<and> racking_selected f
      \<and> numbers_text k (w_AxisTilt f) \<and> numbers_text k (w_AxisAzimuth f)
      \<and> numbers_text k (w_MaxAngle f)
    \<longrightarrow> (\<exists>m ts zs xs. check_mount f (int k) = Inr m
           \<and> mount_axis_tilt m = Some ts \<and> length ts = k
           \<and> mount_axis_azimuth m = Some zs \<and> length zs = k
           \<and> mount_max_angle m = Some xs \<and> length xs = k))
   \<and> (1 < k \<and> numbers_text k (w_mps e) \<and> numbers_text k (w_spi e)
    \<longrightarrow> (\<exists>c. check_econfig e (int k) = Inr c
           \<and> length (econfig_modules_per_string c) = k
           \<and> length (econfig_strings_per_inverter c) = k))"
proof (intro conjI impI)
  assume a: "tracker_btn f = Some ''Sin Seguidor'' \<and> racking_selected f
      \<and> json_number (w_Tilt f) \<and> json_number (w_Azimuth f)"
  then have "\<exists>m. check_mount f 1 = Inr m
      \<and> mount_surface_tilt m = Some [number_value (w_Tilt f)]
      \<and> mount_surface_azimuth m = Some [number_value (w_Azimuth f)]"
    by (intro check_mount_fixed per_subarray_floats_scalar) simp_all
  then show "\<exists>m ts zs. check_mount f 1 = Inr m
           \<and> mount_surface_tilt m = Some ts \<and> length ts = 1
           \<and> mount_surface_azimuth m = Some zs \<and> length zs = 1"
    by fastforce
next
  assume a: "tracker_btn f = Some ''Seguidor 1-Eje'' \<and> racking_selected f
      \<and> json_number (w_AxisTilt f) \<and> json_number (w_AxisAzimuth f) \<and> json_number (w_MaxAngle f)"
  then have "\<exists>m. check_mount f 1 = Inr m
      \<and> mount_axis_tilt m = Some [number_value (w_AxisTilt f)]
      \<and> mount_axis_azimuth m = Some [number_value (w_AxisAzimuth f)]
      \<and> mount_max_angle m = Some [number_value (w_MaxAngle f)]"
    by (intro check_mount_tracker per_subarray_floats_scalar) simp_all
  then show "\<exists>m ts zs xs. check_mount f 1 = Inr m
           \<and> mount_axis_tilt m = Some ts \<and> length ts = 1
           \<and> mount_axis_azimuth m = Some zs \<and> length zs = 1
           \<and> mount_max_angle m = Some xs \<and> length xs = 1"
    by fastforce
next
  assume a: "integer_text (w_mps e) \<and> integer_text (w_spi e)"
  then have "\<exists>c. check_econfig e 1 = Inr c
      \<and> econfig_modules_per_string c = [of_int (integer_value (w_mps e))]
      \<and> econfig_strings_per_inverter c = [of_int (integer_value (w_spi e))]"
    by (intro check_econfig_lists per_subarray_ints_scalar) simp_all
  then show "\<exists>c. check_econfig e 1 = Inr c
           \<and> length (econfig_modules_per_string c) = 1
           \<and> length (econfig_strings_per_inverter c) = 1"
    by fastforce
next
  assume a: "1 < k \<and> tracker_btn f = Some ''Sin Seguidor'' \<and> racking_selected f
      \<and> numbers_text k (w_Tilt f) \<and> numbers_text k (w_Azimuth f)"
  then have "\<exists>m. check_mount f (int k) = Inr m
      \<and> mount_surface_tilt m = Some (numbers_of_text (w_Tilt f))
      \<and> mount_surface_azimuth m = Some (numbers_of_text (w_Azimuth f))"
    by (intro check_mount_fixed per_subarray_floats_list) simp_all
  then show "\<exists>m ts zs. check_mount f (int k) = Inr m
           \<and> mount_surface_tilt m = Some ts \<and> length ts = k
           \<and> mount_surface_azimuth m = Some zs \<and> length zs = k"
    using a by (fastforce simp: length_numbers_of_text)
next
  assume a: "1 < k \<and> tracker_btn f = Some ''Seguidor 1-Eje'' \<and> racking_selected f
      \<and> numbers_text k (w_AxisTilt f) \<and> numbers_text k (w_AxisAzimuth f)
      \<and> numbers_text k (w_MaxAngle f)"
  then have "\<exists>m. check_mount f (int k) = Inr m
      \<and> mount_axis_tilt m = Some (numbers_of_text (w_AxisTilt f))
      \<and> mount_axis_azimuth m = Some (numbers_of_text (w_AxisAzimuth f))
      \<and> mount_max_angle m = Some (numbers_of_text (w_MaxAngle f))"
    by (intro check_mount_tracker per_subarray_floats_list) simp_all
  then show "\<exists>m ts zs xs. check_mount f (int k) = Inr m
           \<and> mount_axis_tilt m = Some ts \<and> length ts = k
           \<and> mount_axis_azimuth m = Some zs \<and> length zs = k
           \<and> mount_max_angle m = Some xs \<and> length xs = k"
    using a by (fastforce simp: length_numbers_of_text)
next
  assume a: "1 < k \<and> numbers_text k (w_mps e) \<and> numbers_text k (w_spi e)"
  then have "\<exists>c. check_econfig e (int k) = Inr c
      \<and> econfig_modules_per_string c = numbers_of_text (w_mps e)
      \<and> econfig_strings_per_inverter c = numbers_of_text (w_spi e)"
    by (intro check_econfig_lists per_subarray_ints_list) simp_all
  then show "\<exists>c. check_econfig e (int k) = Inr c
           \<and> length (econfig_modules_per_string c) = k
           \<and> length (econfig_strings_per_inverter c) = k"
    using a by (fastforce simp: length_numbers_of_text)
qed

text \<open>
  The amended statement of C5 at the fields \<open>'10'\<close>, \<open>'180'\<close> and \<open>'18'\<close>,
  \<open>'40'\<close> for one subarray and at fields of three numbers for three subarrays.
\<close>

theorem per_subarray_list_lengths_witness:
  "(\<exists>m ts zs. check_mount example_fixed_mount 1 = Inr m
        \<and> mount_surface_tilt m = Some ts \<and> length ts = 1
        \<and> mount_surface_azimuth m = Some zs \<and> length zs = 1)
   \<and> (\<exists>c. check_econfig example_econfig_one 1 = Inr c
        \<and> length (econfig_modules_per_string c) = 1
        \<and> length (econfig_strings_per_inverter c) = 1)
   \<and> (\<exists>m ts zs xs. check_mount example_tracker_mount (int 3) = Inr m
        \<and> mount_axis_tilt m = Some ts \<and> length ts = 3
        \<and> mount_axis_azimuth m = Some zs \<and> length zs = 3
        \<and> mount_max_angle m = Some xs \<and> length xs = 3)
   \<and> (\<exists>c. check_econfig example_econfig_three (int 3) = Inr c
        \<and> length (econfig_modules_per_string c) = 3
        \<and> length (econfig_strings_per_inverter c) = 3)"
proof -
  have h1: "tracker_btn example_fixed_mount = Some ''Sin Seguidor''
      \<and> racking_selected example_fixed_mount
      \<and> json_number (w_Tilt example_fixed_mount) \<and> json_number (w_Azimuth example_fixed_mount)"
    by (simp add: example_fixed_mount_def racking_selected_def number_text_defs)
  have h2: "integer_text (w_mps example_econfig_one) \<and> integer_text (w_spi example_econfig_one)"
    by (simp add: example_econfig_one_def number_text_defs)
  have h3: "(1::nat) < 3 \<and> tracker_btn example_tracker_mount = Some ''Seguidor 1-Eje''
      \<and> racking_selected example_tracker_mount
      \<and> numbers_text 3 (w_AxisTilt example_tracker_mount)
      \<and> numbers_text 3 (w_AxisAzimuth example_tracker_mount)
      \<and> numbers_text 3 (w_MaxAngle example_tracker_mount)"
    by (simp add: example_tracker_mount_def racking_selected_def number_text_defs)
  have h4: "(1::nat) < 3 \<and> numbers_text 3 (w_mps example_econfig_three)
      \<and> numbers_text 3 (w_spi example_econfig_three)"
    by (simp add: example_econfig_three_def number_text_defs)
  note a = per_subarray_list_lengths [of example_fixed_mount example_econfig_one 3]
  note b = per_subarray_list_lengths [of example_tracker_mount example_econfig_three 3]
  show ?thesis
    using a [THEN conjunct1, rule_format, OF h1]
      a [THEN conjunct2, THEN conjunct2, THEN conjunct1, rule_format, OF h2]
      b [THEN conjunct2, THEN conjunct2, THEN conjunct2, THEN conjunct2, THEN conjunct1,
         rule_format, OF h3]
      b [THEN conjunct2, THEN conjunct2, THEN conjunct2, THEN conjunct2, THEN conjunct2,
         rule_format, OF h4]
    by simp
qed

text \<open>
  Claim C9. For the subarray count \<open>0\<close>, the default of the widget, \<open>check_mount\<close>
  and \<open>check_econfig\<close> raise \<open>UnboundLocalError\<close> whatever the form holds: neither
  branch on the count assigns the lists. Whenever one of them returns, the count is at
  least \<open>1\<close>.
\<close>

theorem zero_subarrays_unbound:
  "check_mount f 0 = Inl UnboundLocalError
   \<and> check_econfig e 0 = Inl UnboundLocalError
   \<and> (\<forall>m. check_mount f k = Inr m \<longrightarrow> 1 \<le> k)
   \<and> (\<forall>c. check_econfig e k = Inr c \<longrightarrow> 1 \<le> k)"
proof (intro conjI allI impI)
  show "check_mount f 0 = Inl UnboundLocalError" by (simp add: check_mount_low)
  show "check_econfig e 0 = Inl UnboundLocalError" by (simp add: check_econfig_low)
next
  fix m assume "check_mount f k = Inr m"
  then show "1 \<le> k" using check_mount_low [of k f] by (cases "k < 1") simp_all
next
  fix c assume "check_econfig e k = Inr c"
  then show "1 \<le> k" using check_econfig_low [of k e] by (cases "k < 1") simp_all
qed

lemma check_mount_example:
  "check_mount example_fixed_mount 1 =
     Inr \<lparr> mount_with_tracker = False, mount_surface_azimuth = Some [180],
           mount_surface_tilt = Some [10], mount_axis_tilt = None, mount_axis_azimuth = None,
           mount_max_angle = None, mount_module_type = ''glass_glass'',
           mount_racking_model = Some ''open_rack'' \<rparr>"
  by (simp add: check_mount_def per_subarray_floats_def py_float_def py_strip_def is_py_ws_def
      strtod_def strtod_frac_part_def bound_def module_type_of_def example_fixed_mount_def
      number_text_defs)

lemma check_econfig_example:
  "check_econfig example_econfig_one 1 =
     Inr \<lparr> econfig_modules_per_string = [18], econfig_strings_per_inverter = [40],
           econfig_num_inverters = 1 \<rparr>"
  by (simp add: check_econfig_def per_subarray_ints_def py_int_def py_strip_def is_py_ws_def
      bound_def example_econfig_one_def number_text_defs)

text \<open>
  The statement of C9 at the example forms: both raise at count \<open>0\<close> and return at
  count \<open>1\<close>.
\<close>

theorem zero_subarrays_unbound_witness:
  "check_mount example_fixed_mount 0 = Inl UnboundLocalError
   \<and> check_econfig example_econfig_one 0 = Inl UnboundLocalError
   \<and> (\<exists>m. check_mount example_fixed_mount 1 = Inr m) \<and> (1::int) \<le> 1
   \<and> (\<exists>c. check_econfig example_econfig_one 1 = Inr c)"
  using zero_subarrays_unbound [of example_fixed_mount example_econfig_one 1]
  by (simp add: check_mount_example check_econfig_example)

lemma check_mount_shape:
  assumes "check_mount f k = Inr m"
  shows "(tracker_btn f = Some ''Seguidor 1-Eje'' \<and> mount_with_tracker m
          \<and> mount_surface_tilt m = None \<and> mount_surface_azimuth m = None
          \<and> (\<exists>ts zs xs. mount_axis_tilt m = Some ts \<and> mount_axis_azimuth m = Some zs
                \<and> mount_max_angle m = Some xs))
       \<or> (tracker_btn f = Some ''Sin Seguidor'' \<and> \<not> mount_with_tracker m
          \<and> mount_axis_tilt m = None \<and> mount_axis_azimuth m = None \<and> mount_max_angle m = None
          \<and> (\<exists>ts zs. mount_surface_tilt m = Some ts \<and> mount_surface_azimuth m = Some zs))"
proof -
  consider (fixed) "tracker_btn f = Some ''Sin Seguidor''"
    | (tracker) "tracker_btn f = Some ''Seguidor 1-Eje''"
    | (none) "tracker_btn f \<noteq> Some ''Sin Seguidor''" "tracker_btn f \<noteq> Some ''Seguidor 1-Eje''"
    by blast
  then show ?thesis
  proof cases
    case fixed
    with assms show ?thesis
      by (auto simp: check_mount_def bind_result_eq_Inr)
  next
    case tracker
    with assms show ?thesis
      by (auto simp: check_mount_def bind_result_eq_Inr)
  next
    case none
    with assms show ?thesis by (simp add: check_mount_def)
  qed
qed

text \<open>
  Claim C1. In every Plant Configuration the generate button produces, exactly one set of
  mount fields is populated: with \<open>with_tracker\<close> true, \<open>surface_tilt\<close> and
  \<open>surface_azimuth\<close> are null and \<open>axis_tilt\<close>, \<open>axis_azimuth\<close>, \<open>max_angle\<close>
  are lists; with \<open>with_tracker\<close> false, the three tracker fields are null and the two
  surface fields are lists. The flag is true exactly when the tracker mode is selected.
\<close>

theorem mount_fields_exclusive:
  assumes "on_genconfig_clicked g = Inr cfg"
  shows "(with_tracker cfg \<longrightarrow>
            surface_tilt cfg = None \<and> surface_azimuth cfg = None
            \<and> (\<exists>ts zs xs. axis_tilt cfg = Some ts \<and> axis_azimuth cfg = Some zs
                  \<and> max_angle cfg = Some xs))
       \<and> (\<not> with_tracker cfg \<longrightarrow>
            axis_tilt cfg = None \<and> axis_azimuth cfg = None \<and> max_angle cfg = None
            \<and> (\<exists>ts zs. surface_tilt cfg = Some ts \<and> surface_azimuth cfg = Some zs))
       \<and> (with_tracker cfg \<longleftrightarrow> tracker_btn (mount_tab g) = Some ''Seguidor 1-Eje'')
       \<and> (\<not> with_tracker cfg \<longleftrightarrow> tracker_btn (mount_tab g) = Some ''Sin Seguidor'')"
proof -
  from assms obtain i md m e where
    m: "check_mount (mount_tab g) (w_subarrays g) = Inr m"
    and cfg: "cfg = sys_config g i md m e"
    by (auto simp: on_genconfig_clicked_def bind_result_eq_Inr)
  have f: "with_tracker cfg = mount_with_tracker m" "surface_tilt cfg = mount_surface_tilt m"
    "surface_azimuth cfg = mount_surface_azimuth m" "axis_tilt cfg = mount_axis_tilt m"
    "axis_azimuth cfg = mount_axis_azimuth m" "max_angle cfg = mount_max_angle m"
    by (simp_all add: cfg sys_config_def)
  show ?thesis using check_mount_shape [OF m] unfolding f by auto
qed

lemma check_inverter_example:
  "\<exists>r. check_inverter example_inverter_form = Inr r"
  by (simp add: check_inverter_def example_inverter_form_def panel_value_def)

lemma check_mount_tracker_example:
  "check_mount example_tracker_mount 3 =
     Inr \<lparr> mount_with_tracker = True, mount_surface_azimuth = None,
           mount_surface_tilt = None, mount_axis_tilt = Some [0, 0, 0],
           mount_axis_azimuth = Some [180, 180, 180], mount_max_angle = Some [45, 45, 45],
           mount_module_type = ''glass_glass'', mount_racking_model = Some ''open_rack'' \<rparr>"
  by (simp add: check_mount_def per_subarray_floats_def str_to_list_def json_loads_def
      json_array_def json_elements.simps skip_ws_def scan_once_def bound_def module_type_of_def
      example_tracker_mount_def number_text_defs)

lemma check_econfig_three_example:
  "check_econfig example_econfig_three 3 =
     Inr \<lparr> econfig_modules_per_string = [18, 18, 20],
           econfig_strings_per_inverter = [40, 40, 36], econfig_num_inverters = 2 \<rparr>"
  by (simp add: check_econfig_def per_subarray_ints_def str_to_list_def json_loads_def
      json_array_def json_elements.simps skip_ws_def scan_once_def bound_def
      example_econfig_three_def number_text_defs)

lemma on_genconfig_clicked_example:
  "\<exists>cfg. on_genconfig_clicked example_gui = Inr cfg \<and> \<not> with_tracker cfg"
proof -
  obtain i where i: "check_inverter example_inverter_form = Inr i"
    using check_inverter_example by blast
  show ?thesis
    by (simp add: on_genconfig_clicked_def example_gui_def i check_module_example
        check_mount_example check_econfig_example sys_config_def)
qed

lemma on_genconfig_clicked_tracker_example:
  "\<exists>cfg. on_genconfig_clicked example_gui_tracker = Inr cfg \<and> with_tracker cfg"
proof -
  obtain i where i: "check_inverter example_inverter_form = Inr i"
    using check_inverter_example by blast
  show ?thesis
    by (simp add: on_genconfig_clicked_def example_gui_tracker_def example_gui_def i
        check_module_example check_mount_tracker_example check_econfig_three_example
        sys_config_def)
qed

text \<open>
  The statement of C1 at a fixed-mount form with one subarray and at a tracker form with
  three.
\<close>

theorem mount_fields_exclusive_witness:
  "(\<exists>cfg. on_genconfig_clicked example_gui = Inr cfg \<and> \<not> with_tracker cfg
        \<and> axis_tilt cfg = None \<and> axis_azimuth cfg = None \<and> max_angle cfg = None
        \<and> (\<exists>ts zs. surface_tilt cfg = Some ts \<and> surface_azimuth cfg = Some zs))
   \<and> (\<exists>cfg. on_genconfig_clicked example_gui_tracker = Inr cfg \<and> with_tracker cfg
        \<and> surface_tilt cfg = None \<and> surface_azimuth cfg = None
        \<and> (\<exists>ts zs xs. axis_tilt cfg = Some ts \<and> axis_azimuth cfg = Some zs
              \<and> max_angle cfg = Some xs))"
proof -
  obtain c1 where c1: "on_genconfig_clicked example_gui = Inr c1" "\<not> with_tracker c1"
    using on_genconfig_clicked_example by blast
  obtain c2 where c2: "on_genconfig_clicked example_gui_tracker = Inr c2" "with_tracker c2"
    using on_genconfig_clicked_tracker_example by blast
  show ?thesis
    using c1 c2 mount_fields_exclusive [OF c1(1)] mount_fields_exclusive [OF c2(1)]
    by auto
qed

end
